theory Spec2Isabelle
  imports Complex_Main "HOL-Library.Signed_Division"
begin

section \<open>Timestamps and time ranges (src/models/timestamp.ts, src/models/types.ts)\<close>

text \<open>
  A JavaScript \<open>number\<close> that holds an integer is modelled as an \<open>int\<close>; the fields of a
  timestamp are integers by the data model. \<open>Math.floor(a / b)\<close> on such numbers is the
  floor division \<open>div\<close> of HOL, and the remainder operator \<open>%\<close> of JavaScript truncates
  towards zero (its result has the sign of the dividend), which is \<open>smod\<close>.
\<close>

record Timestamp =
  seconds :: int
  nanoseconds :: int

record TimeRange =
  start :: Timestamp
  end' :: Timestamp

datatype error = OverlapError | InvalidSplitPoint | InvalidFormat | TypeError

definition NANOSECONDS_PER_SECOND :: int where
  "NANOSECONDS_PER_SECOND = 1000000000"

definition create :: "int \<Rightarrow> int \<Rightarrow> Timestamp" where
  "create s ns =
     (let extraSeconds = ns div NANOSECONDS_PER_SECOND
      in \<lparr>seconds = s + extraSeconds, nanoseconds = ns smod NANOSECONDS_PER_SECOND\<rparr>)"

definition fromMilliseconds :: "int \<Rightarrow> Timestamp" where
  "fromMilliseconds ms =
     (let secs = ms div 1000; nanos = (ms smod 1000) * 1000000
      in create secs nanos)"

definition toMilliseconds :: "Timestamp \<Rightarrow> int" where
  "toMilliseconds ts = seconds ts * 1000 + nanoseconds ts div 1000000"

definition add :: "Timestamp \<Rightarrow> Timestamp \<Rightarrow> Timestamp" where
  "add a b = create (seconds a + seconds b) (nanoseconds a + nanoseconds b)"

definition subtract :: "Timestamp \<Rightarrow> Timestamp \<Rightarrow> Timestamp" where
  "subtract a b =
     (let secs = seconds a - seconds b; nanos = nanoseconds a - nanoseconds b
      in if nanos < 0
         then \<lparr>seconds = secs - 1, nanoseconds = nanos + NANOSECONDS_PER_SECOND\<rparr>
         else \<lparr>seconds = secs, nanoseconds = nanos\<rparr>)"

definition compare :: "Timestamp \<Rightarrow> Timestamp \<Rightarrow> int" where
  "compare a b =
     (if seconds a < seconds b then -1
      else if seconds a > seconds b then 1
      else if nanoseconds a < nanoseconds b then -1
      else if nanoseconds a > nanoseconds b then 1
      else 0)"

definition isWithinRange :: "Timestamp \<Rightarrow> TimeRange \<Rightarrow> bool" where
  "isWithinRange ts rng \<longleftrightarrow> compare ts (start rng) \<ge> 0 \<and> compare ts (end' rng) < 0"

definition duration :: "TimeRange \<Rightarrow> Timestamp" where
  "duration rng = subtract (end' rng) (start rng)"

subsection \<open>Parsing \<open>"seconds:nanoseconds"\<close>\<close>

text \<open>
  \<open>str.split(sep)\<close> for a non-empty separator: the pieces of the string between the
  occurrences of the separator, found from the left; never the empty list (the empty string
  splits into one empty piece).
\<close>

fun split :: "string \<Rightarrow> string \<Rightarrow> string list" where
  "split sep [] = [[]]"
| "split sep (c # cs) =
     (if sep \<noteq> [] \<and> take (length sep) (c # cs) = sep
      then [] # split sep (drop (length sep - 1) cs)
      else (case split sep cs of
              [] \<Rightarrow> [[c]]
            | p # ps \<Rightarrow> (c # p) # ps))"

text \<open>
  \<open>Number\<close> is a built-in of the language, not code of the repository, so
  \<open>fromString\<close> takes it as a parameter: \<open>None\<close> stands for \<open>NaN\<close>.
  \<open>decimalNumber\<close> is the built-in on the strings the timestamp format is made of: the
  empty string converts to 0, an optionally signed run of decimal digits to its value.
  Every other string is \<open>NaN\<close> in \<open>decimalNumber\<close> (the built-in also reads blanks,
  fractions, exponents and radix prefixes, none of which occur in the inputs used below).
\<close>

definition digitValue :: "char \<Rightarrow> int option" where
  "digitValue c =
     (let code = (of_char c :: nat)
      in if 48 \<le> code \<and> code \<le> 57 then Some (int code - 48) else None)"

fun digits :: "int \<Rightarrow> string \<Rightarrow> int option" where
  "digits acc [] = Some acc"
| "digits acc (c # cs) =
     (case digitValue c of
        None \<Rightarrow> None
      | Some d \<Rightarrow> digits (10 * acc + d) cs)"

definition decimalNumber :: "string \<Rightarrow> int option" where
  "decimalNumber s =
     (case s of
        [] \<Rightarrow> Some 0
      | c # cs \<Rightarrow>
          if c = CHR ''-'' then (if cs = [] then None else map_option uminus (digits 0 cs))
          else if c = CHR ''+'' then (if cs = [] then None else digits 0 cs)
          else digits 0 s)"

text \<open>
  \<open>const [seconds, nanoseconds] = str.split(':').map(Number)\<close> binds the first two
  elements and ignores any further one; a missing second element is \<open>undefined\<close>, for
  which \<open>isNaN\<close> is true.
\<close>

definition fromString :: "(string \<Rightarrow> int option) \<Rightarrow> string \<Rightarrow> error + Timestamp" where
  "fromString Number str =
     (case map Number (split '':'' str) of
        Some secs # Some nanos # _ \<Rightarrow> Inr (create secs nanos)
      | _ \<Rightarrow> Inl InvalidFormat)"

definition timeRangeFromString :: "(string \<Rightarrow> int option) \<Rightarrow> string \<Rightarrow> error + TimeRange" where
  "timeRangeFromString Number str =
     (let parts = split ''...'' str
      in if length parts \<noteq> 2 then Inl InvalidFormat
         else (case fromString Number (parts ! 0) of
                 Inl e \<Rightarrow> Inl e
               | Inr s \<Rightarrow>
                   (case fromString Number (parts ! 1) of
                      Inl e \<Rightarrow> Inl e
                    | Inr e \<Rightarrow> Inr \<lparr>start = s, end' = e\<rparr>)))"

section \<open>Arrays of the language\<close>

text \<open>
  The array methods of JavaScript the code relies on. \<open>findIndex\<close> returns \<open>-1\<close> when no
  element satisfies the predicate. \<open>splice start deleteCount items\<close> reads a negative
  \<open>start\<close> from the end of the array (\<open>max (length + start) 0\<close>) and clamps a
  \<open>start\<close> beyond the end to the length. \<open>slice\<close> reads negative bounds the same way.
  \<open>sort\<close> with a comparator is stable: insertion of each element before the first element
  that does not compare smaller than it, from the right, computes the stable sort.
\<close>

fun findIndexFrom :: "int \<Rightarrow> ('a \<Rightarrow> bool) \<Rightarrow> 'a list \<Rightarrow> int" where
  "findIndexFrom i P [] = -1"
| "findIndexFrom i P (x # xs) = (if P x then i else findIndexFrom (i + 1) P xs)"

definition findIndex :: "('a \<Rightarrow> bool) \<Rightarrow> 'a list \<Rightarrow> int" where
  "findIndex P xs = findIndexFrom 0 P xs"

definition relativeIndex :: "int \<Rightarrow> 'a list \<Rightarrow> nat" where
  "relativeIndex i xs =
     (let n = int (length xs)
      in if i < 0 then nat (max (n + i) 0) else nat (min i n))"

definition splice :: "int \<Rightarrow> int \<Rightarrow> 'a list \<Rightarrow> 'a list \<Rightarrow> 'a list" where
  "splice startIndex deleteCount items xs =
     (let k = relativeIndex startIndex xs;
          d = nat (min (max deleteCount 0) (int (length xs) - int k))
      in take k xs @ items @ drop (k + d) xs)"

definition slice :: "int \<Rightarrow> int \<Rightarrow> 'a list \<Rightarrow> 'a list" where
  "slice b e xs =
     (let k = relativeIndex b xs; final = relativeIndex e xs
      in take (final - k) (drop k xs))"

definition sliceFrom :: "int \<Rightarrow> 'a list \<Rightarrow> 'a list" where
  "sliceFrom b xs = drop (relativeIndex b xs) xs"

fun insertSorted :: "('a \<Rightarrow> 'a \<Rightarrow> int) \<Rightarrow> 'a \<Rightarrow> 'a list \<Rightarrow> 'a list" where
  "insertSorted cmp x [] = [x]"
| "insertSorted cmp x (y # ys) =
     (if cmp x y \<le> 0 then x # y # ys else y # insertSorted cmp x ys)"

definition sortBy :: "('a \<Rightarrow> 'a \<Rightarrow> int) \<Rightarrow> 'a list \<Rightarrow> 'a list" where
  "sortBy cmp xs = foldr (insertSorted cmp) xs []"

fun updateFirst :: "('a \<Rightarrow> bool) \<Rightarrow> ('a \<Rightarrow> 'a) \<Rightarrow> 'a list \<Rightarrow> 'a list" where
  "updateFirst P f [] = []"
| "updateFirst P f (x # xs) = (if P x then f x # xs else x # updateFirst P f xs)"

text \<open>
  The values \<open>uuidv4()\<close> and \<open>new Date()\<close> return are inputs from outside the program:
  a call of a method receives them as an environment, \<open>uuids env k\<close> and \<open>dates env k\<close>
  being what the \<open>k\<close>-th call of \<open>uuidv4()\<close> and of \<open>new Date()\<close> returns during
  that call of the method.
\<close>

type_synonym Date = nat

record env =
  uuids :: "nat \<Rightarrow> string"
  dates :: "nat \<Rightarrow> Date"

section \<open>The timeline's data (src/timeline/types.ts)\<close>

text \<open>
  Values of type \<open>any\<close> (the parameters of a transition or an effect) are opaque to the
  code and kept as strings.
\<close>

datatype TransitionType = Cut | Dissolve | Wipe | Fade

record Transition =
  transition_id :: string
  transition_type :: TransitionType
  transition_duration :: Timestamp
  transition_parameters :: "(string \<times> string) list option"

record Transitions =
  transition_in :: "Transition option"
  transition_out :: "Transition option"

record Effect =
  effect_id :: string
  effect_type :: string
  enabled :: bool
  effect_parameters :: "(string \<times> string) list"

record ClipMetadata =
  clip_label :: "string option"
  clip_color :: "string option"
  clip_notes :: "string option"

record Clip =
  clip_id :: string
  sourceId :: string
  flowId :: string
  trackId :: string
  timelineRange :: TimeRange
  sourceRange :: TimeRange
  speed :: real
  transitions :: "Transitions option"
  effects :: "Effect list"
  clip_metadata :: "ClipMetadata option"

datatype TrackType = Video | Audio | Subtitle | EffectTrack

record TrackMetadata =
  height :: "int option"
  channels :: "int option"
  effectType :: "string option"

record Track =
  track_id :: string
  track_name :: string
  track_type :: TrackType
  track_index :: int
  clips :: "Clip list"
  muted :: bool
  locked :: bool
  visible :: bool
  track_metadata :: "TrackMetadata option"

datatype MarkerType = Chapter | Comment | Todo | Sync

record Marker =
  marker_id :: string
  marker_timestamp :: Timestamp
  marker_type :: MarkerType
  marker_label :: string
  marker_description :: "string option"
  marker_color :: "string option"
  userId :: "string option"

datatype EditCommandType =
    add_clip | remove_clip | move_clip | trim_clip | split_clip
  | add_track | remove_track | reorder_tracks
  | add_transition | remove_transition
  | add_effect | remove_effect | update_effect
  | add_marker | remove_marker

text \<open>
  The payloads \<open>data\<close> and \<open>undoData\<close> of a command are object literals: a list of
  named fields. A payload holds the content its objects had when the command was recorded;
  no method of the manager reads a payload back (\<open>applyUndo\<close> and \<open>applyRedo\<close> only log it).
\<close>

datatype payload =
    PString string
  | PNumber int
  | PTimestamp Timestamp
  | PRange "TimeRange option"
  | PClip Clip
  | PTrack Track
  | PMarker Marker
  | PEffect Effect

record EditCommand =
  command_id :: string
  command_type :: EditCommandType
  command_timestamp :: Date
  data :: "(string \<times> payload) list"
  undoData :: "(string \<times> payload) list option"

record Timeline =
  timeline_id :: string
  projectId :: string
  timeline_duration :: Timestamp
  tracks :: "Track list"
  markers :: "Marker list"
  timeline_created :: Date
  timeline_updated :: Date

record ClipSelection =
  selection_clipId :: string
  selection_trackId :: string

record TimelineState =
  playhead :: Timestamp
  selection :: "ClipSelection list"
  zoomLevel :: real
  scrollPosition :: real

section \<open>The timeline manager (src/timeline/timeline.ts)\<close>

text \<open>
  The manager is modelled by value: its timeline is a tree of tracks and clips, and the
  assignment to a field of an object the code has found (\<open>getTrack\<close>, \<open>getClip\<close>) is the
  update of the tree at the place where the object was found, the first track with the
  identifier and the first clip with the identifier in the first track that holds one.
  This is what the code does on a timeline in which no object occurs at two places.
  A method returns its result, an error for a \<open>throw\<close>, together with the manager after
  the call. Listeners registered on the manager are outside the model.
\<close>

record TimelineManager =
  timeline :: Timeline
  state :: TimelineState
  history :: "EditCommand list"
  historyIndex :: int
  maxHistorySize :: int

definition newTimelineManager :: "Timeline \<Rightarrow> TimelineManager" where
  "newTimelineManager t =
     \<lparr>timeline = t,
      state = \<lparr>playhead = create 0 0, selection = [], zoomLevel = 100, scrollPosition = 0\<rparr>,
      history = [],
      historyIndex = -1,
      maxHistorySize = 100\<rparr>"

definition getTracks :: "TimelineManager \<Rightarrow> Track list" where
  "getTracks m = tracks (timeline m)"

definition getTrack :: "TimelineManager \<Rightarrow> string \<Rightarrow> Track option" where
  "getTrack m tid = find (\<lambda>t. track_id t = tid) (getTracks m)"

fun getClipIn :: "Track list \<Rightarrow> string \<Rightarrow> Clip option" where
  "getClipIn [] cid = None"
| "getClipIn (t # ts) cid =
     (case find (\<lambda>c. clip_id c = cid) (clips t) of
        Some c \<Rightarrow> Some c
      | None \<Rightarrow> getClipIn ts cid)"

definition getClip :: "TimelineManager \<Rightarrow> string \<Rightarrow> Clip option" where
  "getClip m cid = getClipIn (getTracks m) cid"

text \<open>Assignments to the object \<open>getTrack\<close> or \<open>getClip\<close> returned.\<close>

definition setTracks :: "Track list \<Rightarrow> TimelineManager \<Rightarrow> TimelineManager" where
  "setTracks ts m = m\<lparr>timeline := (timeline m)\<lparr>tracks := ts\<rparr>\<rparr>"

definition mutateTrack :: "string \<Rightarrow> (Track \<Rightarrow> Track) \<Rightarrow> TimelineManager \<Rightarrow> TimelineManager" where
  "mutateTrack tid f m = setTracks (updateFirst (\<lambda>t. track_id t = tid) f (getTracks m)) m"

fun mutateClipIn :: "string \<Rightarrow> (Clip \<Rightarrow> Clip) \<Rightarrow> Track list \<Rightarrow> Track list" where
  "mutateClipIn cid f [] = []"
| "mutateClipIn cid f (t # ts) =
     (if list_ex (\<lambda>c. clip_id c = cid) (clips t)
      then t\<lparr>clips := updateFirst (\<lambda>c. clip_id c = cid) f (clips t)\<rparr> # ts
      else t # mutateClipIn cid f ts)"

definition mutateClip :: "string \<Rightarrow> (Clip \<Rightarrow> Clip) \<Rightarrow> TimelineManager \<Rightarrow> TimelineManager" where
  "mutateClip cid f m = setTracks (mutateClipIn cid f (getTracks m)) m"

definition overlaps :: "TimeRange \<Rightarrow> TimeRange \<Rightarrow> bool" where
  "overlaps a b \<longleftrightarrow> compare (start a) (end' b) < 0 \<and> compare (end' a) (start b) > 0"

definition hasOverlap :: "Track \<Rightarrow> TimeRange \<Rightarrow> string option \<Rightarrow> bool" where
  "hasOverlap track timerange excludeClipId =
     list_ex (\<lambda>clip. if Some (clip_id clip) = excludeClipId then False
                      else overlaps timerange (timelineRange clip))
       (clips track)"

definition findClipInsertIndex :: "Track \<Rightarrow> Timestamp \<Rightarrow> int" where
  "findClipInsertIndex track ts =
     findIndex (\<lambda>clip. compare (start (timelineRange clip)) ts > 0) (clips track)"

definition executeCommand :: "EditCommand \<Rightarrow> TimelineManager \<Rightarrow> TimelineManager" where
  "executeCommand command m =
     (let h = slice 0 (historyIndex m + 1) (history m) @ [command];
          i = historyIndex m + 1
      in if int (length h) > maxHistorySize m
         then (let h' = sliceFrom (- maxHistorySize m) h
               in m\<lparr>history := h', historyIndex := int (length h') - 1\<rparr>)
         else m\<lparr>history := h, historyIndex := i\<rparr>)"

definition maxEndOf :: "Track list \<Rightarrow> Timestamp" where
  "maxEndOf ts =
     fold (\<lambda>clip maxEnd. if compare (end' (timelineRange clip)) maxEnd > 0
                          then end' (timelineRange clip) else maxEnd)
       (concat (map clips ts)) (create 0 0)"

definition updateTimeline :: "Date \<Rightarrow> TimelineManager \<Rightarrow> TimelineManager" where
  "updateTimeline now m =
     m\<lparr>timeline := (timeline m)\<lparr>timeline_duration := maxEndOf (getTracks m),
                                 timeline_updated := now\<rparr>\<rparr>"

subsection \<open>Clip operations\<close>

definition addClip ::
  "env \<Rightarrow> string \<Rightarrow> Clip \<Rightarrow> TimelineManager \<Rightarrow> (error + Clip option) \<times> TimelineManager" where
  "addClip env tid clip m =
     (case getTrack m tid of
        None \<Rightarrow> (Inr None, m)
      | Some track \<Rightarrow>
          if hasOverlap track (timelineRange clip) None then (Inl OverlapError, m)
          else
            (let newClip = clip\<lparr>clip_id := uuids env 0, trackId := tid\<rparr>;
                 insertIndex = findClipInsertIndex track (start (timelineRange newClip));
                 m1 = mutateTrack tid
                        (\<lambda>t. t\<lparr>clips := splice insertIndex 0 [newClip] (clips t)\<rparr>) m;
                 m2 = executeCommand
                        \<lparr>command_id = uuids env 1, command_type = add_clip,
                         command_timestamp = dates env 0,
                         data = [(''clip'', PClip newClip)],
                         undoData = Some [(''clipId'', PString (clip_id newClip))]\<rparr> m1;
                 m3 = updateTimeline (dates env 1) m2
             in (Inr (Some newClip), m3)))"

fun removeClipIn :: "string \<Rightarrow> Track list \<Rightarrow> (Clip \<times> string \<times> int) option \<times> Track list" where
  "removeClipIn cid [] = (None, [])"
| "removeClipIn cid (t # ts) =
     (let clipIndex = findIndex (\<lambda>c. clip_id c = cid) (clips t)
      in if clipIndex \<noteq> -1
         then (Some (clips t ! nat clipIndex, track_id t, clipIndex),
               t\<lparr>clips := splice clipIndex 1 [] (clips t)\<rparr> # ts)
         else (case removeClipIn cid ts of (r, ts') \<Rightarrow> (r, t # ts')))"

definition removeClip ::
  "env \<Rightarrow> string \<Rightarrow> TimelineManager \<Rightarrow> (error + bool) \<times> TimelineManager" where
  "removeClip env cid m =
     (case removeClipIn cid (getTracks m) of
        (None, _) \<Rightarrow> (Inr False, m)
      | (Some (clip, tid, clipIndex), ts) \<Rightarrow>
          (let m1 = setTracks ts m;
               m2 = executeCommand
                      \<lparr>command_id = uuids env 0, command_type = remove_clip,
                       command_timestamp = dates env 0,
                       data = [(''clipId'', PString cid)],
                       undoData = Some [(''clip'', PClip clip), (''trackId'', PString tid),
                                        (''index'', PNumber clipIndex)]\<rparr> m1;
               m3 = updateTimeline (dates env 1) m2
           in (Inr True, m3)))"

text \<open>
  \<open>moveClip\<close> replaces the clips of the source track by those with another identifier,
  assigns the new track and range to the clip object it found, and inserts that object
  into the target track. The assignment is to the object at the place \<open>getClip\<close> found in
  the timeline before the call; the model applies it there first. Filtering by identifier
  does not depend on the two assigned fields, so the order of these two steps makes no
  difference to the result.
\<close>

definition moveClip ::
  "env \<Rightarrow> string \<Rightarrow> string \<Rightarrow> Timestamp \<Rightarrow> TimelineManager
     \<Rightarrow> (error + bool) \<times> TimelineManager" where
  "moveClip env cid newTrackId newTimelineStart m =
     (case getClip m cid of
        None \<Rightarrow> (Inr False, m)
      | Some clip \<Rightarrow>
          (case getTrack m (trackId clip) of
             None \<Rightarrow> (Inr False, m)
           | Some sourceTrack \<Rightarrow>
               (case getTrack m newTrackId of
                  None \<Rightarrow> (Inr False, m)
                | Some targetTrack \<Rightarrow>
                    (let dur = duration (timelineRange clip);
                         newTimelineRange =
                           \<lparr>start = newTimelineStart, end' = add newTimelineStart dur\<rparr>
                     in if hasOverlap targetTrack newTimelineRange (Some cid)
                        then (Inl OverlapError, m)
                        else
                          (let oldTrackId = trackId clip;
                               oldTimelineRange = timelineRange clip;
                               moved = clip\<lparr>trackId := newTrackId,
                                            timelineRange := newTimelineRange\<rparr>;
                               m1 = mutateClip cid
                                      (\<lambda>c. c\<lparr>trackId := newTrackId,
                                               timelineRange := newTimelineRange\<rparr>) m;
                               m2 = mutateTrack oldTrackId
                                      (\<lambda>t. t\<lparr>clips := filter (\<lambda>c. clip_id c \<noteq> cid) (clips t)\<rparr>) m1;
                               m3 = mutateTrack newTrackId
                                      (\<lambda>t. t\<lparr>clips := splice (findClipInsertIndex t newTimelineStart) 0
                                                          [moved] (clips t)\<rparr>) m2;
                               m4 = executeCommand
                                      \<lparr>command_id = uuids env 0, command_type = move_clip,
                                       command_timestamp = dates env 0,
                                       data = [(''clipId'', PString cid),
                                               (''newTrackId'', PString newTrackId),
                                               (''newTimelineStart'', PTimestamp newTimelineStart)],
                                       undoData = Some [(''clipId'', PString cid),
                                                        (''oldTrackId'', PString oldTrackId),
                                                        (''oldTimelineRange'', PRange (Some oldTimelineRange))]\<rparr>
                                      m3;
                               m5 = updateTimeline (dates env 1) m4
                           in (Inr True, m5))))))"

definition byTimelineStart :: "Clip \<Rightarrow> Clip \<Rightarrow> int" where
  "byTimelineStart a b = compare (start (timelineRange a)) (start (timelineRange b))"

definition trimClip ::
  "env \<Rightarrow> string \<Rightarrow> TimeRange option \<Rightarrow> TimeRange option \<Rightarrow> TimelineManager
     \<Rightarrow> (error + bool) \<times> TimelineManager" where
  "trimClip env cid newSourceRange newTimelineRange m =
     (case getClip m cid of
        None \<Rightarrow> (Inr False, m)
      | Some clip \<Rightarrow>
          (case getTrack m (trackId clip) of
             None \<Rightarrow> (Inr False, m)
           | Some track \<Rightarrow>
               (let oldSourceRange = sourceRange clip;
                    oldTimelineRange = timelineRange clip
                in if (case newTimelineRange of
                         None \<Rightarrow> False
                       | Some r \<Rightarrow> hasOverlap track r (Some cid))
                   then (Inl OverlapError, m)
                   else
                     (let m1 = (case newSourceRange of
                                  None \<Rightarrow> m
                                | Some r \<Rightarrow> mutateClip cid (\<lambda>c. c\<lparr>sourceRange := r\<rparr>) m);
                          m2 = (case newTimelineRange of
                                  None \<Rightarrow> m1
                                | Some r \<Rightarrow>
                                    mutateTrack (trackId clip)
                                      (\<lambda>t. t\<lparr>clips := sortBy byTimelineStart (clips t)\<rparr>)
                                      (mutateClip cid (\<lambda>c. c\<lparr>timelineRange := r\<rparr>) m1));
                          m3 = executeCommand
                                 \<lparr>command_id = uuids env 0, command_type = trim_clip,
                                  command_timestamp = dates env 0,
                                  data = [(''clipId'', PString cid),
                                          (''newSourceRange'', PRange newSourceRange),
                                          (''newTimelineRange'', PRange newTimelineRange)],
                                  undoData = Some [(''clipId'', PString cid),
                                                   (''oldSourceRange'', PRange (Some oldSourceRange)),
                                                   (''oldTimelineRange'', PRange (Some oldTimelineRange))]\<rparr>
                                 m2;
                          m4 = updateTimeline (dates env 1) m3
                      in (Inr True, m4)))))"

definition splitClip ::
  "env \<Rightarrow> string \<Rightarrow> Timestamp \<Rightarrow> TimelineManager
     \<Rightarrow> (error + Clip list option) \<times> TimelineManager" where
  "splitClip env cid splitPoint m =
     (case getClip m cid of
        None \<Rightarrow> (Inr None, m)
      | Some clip \<Rightarrow>
          (case getTrack m (trackId clip) of
             None \<Rightarrow> (Inr None, m)
           | Some track \<Rightarrow>
               if \<not> isWithinRange splitPoint (timelineRange clip)
               then (Inl InvalidSplitPoint, m)
               else
                 (let firstDuration = subtract splitPoint (start (timelineRange clip));
                      secondDuration = subtract (end' (timelineRange clip)) splitPoint;
                      firstClip = clip
                        \<lparr>clip_id := uuids env 0,
                         timelineRange :=
                           \<lparr>start = start (timelineRange clip), end' = splitPoint\<rparr>,
                         sourceRange :=
                           \<lparr>start = start (sourceRange clip),
                            end' = add (start (sourceRange clip)) firstDuration\<rparr>,
                         transitions :=
                           Some \<lparr>transition_in = (case transitions clip of
                                                     None \<Rightarrow> None
                                                   | Some t \<Rightarrow> transition_in t),
                                 transition_out = None\<rparr>\<rparr>;
                      secondClip = clip
                        \<lparr>clip_id := uuids env 1,
                         timelineRange :=
                           \<lparr>start = splitPoint, end' = end' (timelineRange clip)\<rparr>,
                         sourceRange :=
                           \<lparr>start = add (start (sourceRange clip)) firstDuration,
                            end' = end' (sourceRange clip)\<rparr>,
                         transitions :=
                           Some \<lparr>transition_in = None,
                                 transition_out = (case transitions clip of
                                                      None \<Rightarrow> None
                                                    | Some t \<Rightarrow> transition_out t)\<rparr>\<rparr>;
                      clipIndex = findIndex (\<lambda>c. clip_id c = cid) (clips track);
                      m1 = mutateTrack (trackId clip)
                             (\<lambda>t. t\<lparr>clips := splice clipIndex 1 [firstClip, secondClip] (clips t)\<rparr>) m;
                      m2 = executeCommand
                             \<lparr>command_id = uuids env 2, command_type = split_clip,
                              command_timestamp = dates env 0,
                              data = [(''originalClipId'', PString cid),
                                      (''splitPoint'', PTimestamp splitPoint),
                                      (''firstClipId'', PString (clip_id firstClip)),
                                      (''secondClipId'', PString (clip_id secondClip))],
                              undoData = Some [(''originalClip'', PClip clip),
                                               (''trackId'', PString (track_id track)),
                                               (''index'', PNumber clipIndex)]\<rparr> m1;
                      m3 = updateTimeline (dates env 1) m2
                  in (Inr (Some [firstClip, secondClip]), m3))))"

subsection \<open>Undo and redo\<close>

definition canUndo :: "TimelineManager \<Rightarrow> bool" where
  "canUndo m \<longleftrightarrow> historyIndex m \<ge> 0"

definition canRedo :: "TimelineManager \<Rightarrow> bool" where
  "canRedo m \<longleftrightarrow> historyIndex m < int (length (history m)) - 1"

text \<open>
  \<open>applyUndo\<close> and \<open>applyRedo\<close> write one line to the debug log and change nothing.
  Reading \<open>command.type\<close> for the log throws a \<open>TypeError\<close> when the history has no
  command at the index (\<open>command\<close> is \<open>undefined\<close>).
\<close>

definition applyUndo :: "EditCommand \<Rightarrow> TimelineManager \<Rightarrow> TimelineManager" where
  "applyUndo command m = m"

definition applyRedo :: "EditCommand \<Rightarrow> TimelineManager \<Rightarrow> TimelineManager" where
  "applyRedo command m = m"

definition undo :: "env \<Rightarrow> TimelineManager \<Rightarrow> (error + bool) \<times> TimelineManager" where
  "undo env m =
     (if \<not> canUndo m then (Inr False, m)
      else if historyIndex m \<ge> int (length (history m)) then (Inl TypeError, m)
      else
        (let command = history m ! nat (historyIndex m);
             m1 = applyUndo command m;
             m2 = m1\<lparr>historyIndex := historyIndex m1 - 1\<rparr>;
             m3 = updateTimeline (dates env 0) m2
         in (Inr True, m3)))"

definition redo :: "env \<Rightarrow> TimelineManager \<Rightarrow> (error + bool) \<times> TimelineManager" where
  "redo env m =
     (if \<not> canRedo m then (Inr False, m)
      else
        (let m1 = m\<lparr>historyIndex := historyIndex m + 1\<rparr>
         in if historyIndex m1 < 0 then (Inl TypeError, m1)
            else
              (let command = history m1 ! nat (historyIndex m1);
                   m2 = applyRedo command m1;
                   m3 = updateTimeline (dates env 0) m2
               in (Inr True, m3))))"

text \<open>The calls of the manager that record or replay history, and runs of them.\<close>

datatype Operation =
    AddClip env string Clip
  | RemoveClip env string
  | MoveClip env string string Timestamp
  | TrimClip env string "TimeRange option" "TimeRange option"
  | SplitClip env string Timestamp
  | Undo env
  | Redo env

fun perform :: "Operation \<Rightarrow> TimelineManager \<Rightarrow> TimelineManager" where
  "perform (AddClip env tid clip) m = snd (addClip env tid clip m)"
| "perform (RemoveClip env cid) m = snd (removeClip env cid m)"
| "perform (MoveClip env cid tid ts) m = snd (moveClip env cid tid ts m)"
| "perform (TrimClip env cid sr tr) m = snd (trimClip env cid sr tr m)"
| "perform (SplitClip env cid ts) m = snd (splitClip env cid ts m)"
| "perform (Undo env) m = snd (undo env m)"
| "perform (Redo env) m = snd (redo env m)"

definition performAll :: "Operation list \<Rightarrow> TimelineManager \<Rightarrow> TimelineManager" where
  "performAll ops m = fold perform ops m"

section \<open>The flow ledger (src/models/flow.ts, src/models/types.ts)\<close>

datatype FlowType = VideoFlow | AudioFlow | DataFlow

datatype InterlaceMode = Progressive | Interlaced_tff | Interlaced_bff

record Rational =
  numerator :: int
  denominator :: int

record FlowFormat =
  format_type :: FlowType
  mediaType :: "string option"
  codec :: "string option"
  frameRate :: "Rational option"
  sampleRate :: "int option"
  bitDepth :: "int option"
  format_channels :: "int option"
  width :: "int option"
  format_height :: "int option"
  interlaceMode :: "InterlaceMode option"
  colorspace :: "string option"
  transferCharacteristic :: "string option"

record FlowSegment =
  segment_id :: string
  segment_flowId :: string
  timerange :: TimeRange
  objectIds :: "string list"
  tsOffset :: "Timestamp option"
  segment_duration :: "Timestamp option"
  mediaTimerange :: "TimeRange option"
  segment_created :: Date
  segment_updated :: Date

text \<open>
  \<open>clone\<close> and \<open>extractRange\<close> build a second flow from the receiver, and a flow
  holds its segments in an array that \<open>addSegment\<close> changes in place. Flows and their
  arrays of segments are therefore objects in a store, named by references; the field
  \<open>segments\<close> of a flow is the reference of its array. A segment is never assigned to
  after it is built, and neither are its \<open>objectIds\<close> or the \<open>tags\<close> of a flow, so these
  are kept as values. The store also holds what \<open>uuidv4()\<close> and \<open>new Date()\<close> will
  return, call after call.
\<close>

type_synonym ref = nat

record FlowModel =
  flow_id :: string
  flow_sourceId :: "string option"
  flow_label :: "string option"
  flow_description :: "string option"
  format :: FlowFormat
  tags :: "(string \<times> string) list"
  flow_created :: Date
  flow_updated :: Date
  generation :: int
  segments :: ref

text \<open>The argument of the constructor, a \<open>Partial<Flow>\<close>: every field may be missing.\<close>

record FlowData =
  data_id :: "string option"
  data_sourceId :: "string option"
  data_label :: "string option"
  data_description :: "string option"
  data_format :: "FlowFormat option"
  data_tags :: "(string \<times> string) list option"
  data_created :: "Date option"
  data_updated :: "Date option"
  data_generation :: "int option"
  data_segments :: "ref option"

record store =
  flowObjects :: "ref \<Rightarrow> FlowModel option"
  segmentArrays :: "ref \<Rightarrow> FlowSegment list option"
  nextRef :: ref
  uuidSource :: "nat \<Rightarrow> string"
  uuidCalls :: nat
  clock :: "nat \<Rightarrow> Date"
  dateCalls :: nat

definition uuidv4 :: "store \<Rightarrow> string \<times> store" where
  "uuidv4 st = (uuidSource st (uuidCalls st), st\<lparr>uuidCalls := Suc (uuidCalls st)\<rparr>)"

definition newDate :: "store \<Rightarrow> Date \<times> store" where
  "newDate st = (clock st (dateCalls st), st\<lparr>dateCalls := Suc (dateCalls st)\<rparr>)"

definition newArray :: "FlowSegment list \<Rightarrow> store \<Rightarrow> ref \<times> store" where
  "newArray xs st =
     (nextRef st,
      st\<lparr>segmentArrays := (segmentArrays st)(nextRef st \<mapsto> xs), nextRef := Suc (nextRef st)\<rparr>)"

definition newObject :: "FlowModel \<Rightarrow> store \<Rightarrow> ref \<times> store" where
  "newObject flow st =
     (nextRef st,
      st\<lparr>flowObjects := (flowObjects st)(nextRef st \<mapsto> flow), nextRef := Suc (nextRef st)\<rparr>)"

text \<open>\<open>a || uuidv4()\<close>: a missing or empty string is falsy.\<close>

definition orUuid :: "string option \<Rightarrow> store \<Rightarrow> string \<times> store" where
  "orUuid s st =
     (case s of
        None \<Rightarrow> uuidv4 st
      | Some v \<Rightarrow> if v = [] then uuidv4 st else (v, st))"

definition orNewDate :: "Date option \<Rightarrow> store \<Rightarrow> Date \<times> store" where
  "orNewDate d st = (case d of None \<Rightarrow> newDate st | Some v \<Rightarrow> (v, st))"

definition newFlowModel :: "FlowData \<Rightarrow> store \<Rightarrow> ref \<times> store" where
  "newFlowModel d st =
     (let (ident, st1) = orUuid (data_id d) st;
          fmt = (case data_format d of
                   None \<Rightarrow> \<lparr>format_type = VideoFlow, mediaType = None, codec = None,
                             frameRate = None, sampleRate = None, bitDepth = None,
                             format_channels = None, width = None, format_height = None,
                             interlaceMode = None, colorspace = None,
                             transferCharacteristic = None\<rparr>
                 | Some f \<Rightarrow> f);
          tgs = (case data_tags d of None \<Rightarrow> [] | Some t \<Rightarrow> t);
          (created, st2) = orNewDate (data_created d) st1;
          (updated, st3) = orNewDate (data_updated d) st2;
          gen = (case data_generation d of None \<Rightarrow> 0 | Some g \<Rightarrow> g);
          (segs, st4) = (case data_segments d of
                           None \<Rightarrow> newArray [] st3
                         | Some r \<Rightarrow> (r, st3))
      in newObject
           \<lparr>flow_id = ident, flow_sourceId = data_sourceId d, flow_label = data_label d,
            flow_description = data_description d, format = fmt, tags = tgs,
            flow_created = created, flow_updated = updated, generation = gen,
            segments = segs\<rparr> st4)"

text \<open>The object literal \<open>{...this}\<close>: every field of the receiver, present.\<close>

definition spread :: "FlowModel \<Rightarrow> FlowData" where
  "spread flow =
     \<lparr>data_id = Some (flow_id flow), data_sourceId = flow_sourceId flow,
      data_label = flow_label flow, data_description = flow_description flow,
      data_format = Some (format flow), data_tags = Some (tags flow),
      data_created = Some (flow_created flow), data_updated = Some (flow_updated flow),
      data_generation = Some (generation flow), data_segments = Some (segments flow)\<rparr>"

definition validateSegmentTimeRange :: "FlowSegment list \<Rightarrow> TimeRange \<Rightarrow> error + unit" where
  "validateSegmentTimeRange segs rng =
     (if list_ex (\<lambda>segment. overlaps rng (timerange segment)) segs
      then Inl OverlapError else Inr ())"

definition byStart :: "FlowSegment \<Rightarrow> FlowSegment \<Rightarrow> int" where
  "byStart a b = compare (start (timerange a)) (start (timerange b))"

text \<open>
  The argument of \<open>addSegment\<close> has no \<open>flowId\<close>, \<open>created\<close> or \<open>updated\<close>; the method
  sets the three, so the model takes a segment and overwrites them. A receiver that is
  not a flow of the store, or whose array is missing, is a \<open>TypeError\<close>.
\<close>

definition addSegment :: "ref \<Rightarrow> FlowSegment \<Rightarrow> store \<Rightarrow> (error + FlowSegment) \<times> store" where
  "addSegment this segment st =
     (case flowObjects st this of
        None \<Rightarrow> (Inl TypeError, st)
      | Some flow \<Rightarrow>
          (case segmentArrays st (segments flow) of
             None \<Rightarrow> (Inl TypeError, st)
           | Some segs \<Rightarrow>
               (let (created, st1) = newDate st;
                    (updated, st2) = newDate st1;
                    newSegment = segment\<lparr>segment_flowId := flow_id flow,
                                         segment_created := created,
                                         segment_updated := updated\<rparr>
                in case validateSegmentTimeRange segs (timerange newSegment) of
                     Inl e \<Rightarrow> (Inl e, st2)
                   | Inr _ \<Rightarrow>
                       (let st3 = st2\<lparr>segmentArrays := (segmentArrays st2)
                                         (segments flow \<mapsto> sortBy byStart (segs @ [newSegment]))\<rparr>;
                            (now, st4) = newDate st3;
                            st5 = st4\<lparr>flowObjects := (flowObjects st4)
                                         (this \<mapsto> flow\<lparr>flow_updated := now,
                                                         generation := generation flow + 1\<rparr>)\<rparr>
                        in (Inr newSegment, st5)))))"

definition getSegmentsInRange :: "FlowSegment list \<Rightarrow> TimeRange \<Rightarrow> FlowSegment list" where
  "getSegmentsInRange segs rng =
     filter (\<lambda>segment. compare (start (timerange segment)) (end' rng) < 0
                      \<and> compare (end' (timerange segment)) (start rng) > 0) segs"

fun cloneSegments :: "string \<Rightarrow> FlowSegment list \<Rightarrow> store \<Rightarrow> FlowSegment list \<times> store" where
  "cloneSegments cloneId [] st = ([], st)"
| "cloneSegments cloneId (segment # rest) st =
     (let (ident, st1) = uuidv4 st;
          (created, st2) = newDate st1;
          (updated, st3) = newDate st2;
          copy = segment\<lparr>segment_id := ident, segment_flowId := cloneId,
                          segment_created := created, segment_updated := updated\<rparr>;
          (copies, st4) = cloneSegments cloneId rest st3
      in (copy # copies, st4))"

definition clone :: "ref \<Rightarrow> string option \<Rightarrow> store \<Rightarrow> (error + ref) \<times> store" where
  "clone this newId st =
     (case flowObjects st this of
        None \<Rightarrow> (Inl TypeError, st)
      | Some flow \<Rightarrow>
          (case segmentArrays st (segments flow) of
             None \<Rightarrow> (Inl TypeError, st)
           | Some segs \<Rightarrow>
               (let (cloneId, st1) = orUuid newId st;
                    (created, st2) = newDate st1;
                    (updated, st3) = newDate st2;
                    (copies, st4) = cloneSegments cloneId segs st3;
                    (arr, st5) = newArray copies st4;
                    (r, st6) = newFlowModel
                                 ((spread flow)\<lparr>data_id := Some cloneId,
                                                 data_created := Some created,
                                                 data_updated := Some updated,
                                                 data_generation := Some 0,
                                                 data_segments := Some arr\<rparr>) st5
                in (Inr r, st6))))"

text \<open>The loop of \<open>extractRange\<close> over the segments that overlap the range.\<close>

fun extractSegments :: "ref \<Rightarrow> TimeRange \<Rightarrow> FlowSegment list \<Rightarrow> store \<Rightarrow> (error + unit) \<times> store" where
  "extractSegments newFlow rng [] st = (Inr (), st)"
| "extractSegments newFlow rng (segment # rest) st =
     (let s = (if compare (start (timerange segment)) (start rng) > 0
               then start (timerange segment) else start rng);
          e = (if compare (end' (timerange segment)) (end' rng) < 0
               then end' (timerange segment) else end' rng);
          mediaRange =
            (case mediaTimerange segment of
               None \<Rightarrow> None
             | Some mt \<Rightarrow>
                 if compare s (start (timerange segment)) \<noteq> 0
                    \<or> compare e (end' (timerange segment)) \<noteq> 0
                 then (let startOffset = subtract s (start (timerange segment));
                           dur = subtract e s;
                           newMediaStart = add (start mt) startOffset
                       in Some \<lparr>start = newMediaStart, end' = add newMediaStart dur\<rparr>)
                 else Some mt);
          (ident, st1) = uuidv4 st
      in case addSegment newFlow
                (segment\<lparr>segment_id := ident, timerange := \<lparr>start = s, end' = e\<rparr>,
                          mediaTimerange := mediaRange\<rparr>) st1 of
           (Inl err, st2) \<Rightarrow> (Inl err, st2)
         | (Inr _, st2) \<Rightarrow> extractSegments newFlow rng rest st2)"

definition extractRange :: "ref \<Rightarrow> TimeRange \<Rightarrow> string option \<Rightarrow> store \<Rightarrow> (error + ref) \<times> store" where
  "extractRange this rng newId st =
     (case flowObjects st this of
        None \<Rightarrow> (Inl TypeError, st)
      | Some flow \<Rightarrow>
          (case segmentArrays st (segments flow) of
             None \<Rightarrow> (Inl TypeError, st)
           | Some segs \<Rightarrow>
               (let (ident, st1) = orUuid newId st;
                    (created, st2) = newDate st1;
                    (updated, st3) = newDate st2;
                    (arr, st4) = newArray [] st3;
                    (newFlow, st5) = newFlowModel
                                       ((spread flow)\<lparr>data_id := Some ident,
                                                       data_created := Some created,
                                                       data_updated := Some updated,
                                                       data_generation := Some 0,
                                                       data_segments := Some arr\<rparr>) st4;
                    relevantSegments = getSegmentsInRange segs rng
                in case extractSegments newFlow rng relevantSegments st5 of
                     (Inl err, st6) \<Rightarrow> (Inl err, st6)
                   | (Inr _, st6) \<Rightarrow> (Inr newFlow, st6))))"

text \<open>What a flow of the store holds, and runs of \<open>addSegment\<close> that all succeed.\<close>

definition segmentsOf :: "store \<Rightarrow> ref \<Rightarrow> FlowSegment list" where
  "segmentsOf st this =
     (case flowObjects st this of
        None \<Rightarrow> []
      | Some flow \<Rightarrow> (case segmentArrays st (segments flow) of None \<Rightarrow> [] | Some segs \<Rightarrow> segs))"

definition isFlow :: "store \<Rightarrow> ref \<Rightarrow> bool" where
  "isFlow st this \<longleftrightarrow>
     (case flowObjects st this of
        None \<Rightarrow> False
      | Some flow \<Rightarrow> segmentArrays st (segments flow) \<noteq> None)"

fun addSegments :: "ref \<Rightarrow> FlowSegment list \<Rightarrow> store \<Rightarrow> store option" where
  "addSegments this [] st = Some st"
| "addSegments this (segment # rest) st =
     (case addSegment this segment st of
        (Inl _, _) \<Rightarrow> None
      | (Inr _, st') \<Rightarrow> addSegments this rest st')"

section \<open>Sorted and non-overlapping lists of ranges\<close>

definition pairwiseNonOverlapping :: "TimeRange list \<Rightarrow> bool" where
  "pairwiseNonOverlapping rs = sorted_wrt (\<lambda>a b. \<not> overlaps a b) rs"

definition sortedByStart :: "TimeRange list \<Rightarrow> bool" where
  "sortedByStart rs = sorted_wrt (\<lambda>a b. compare (start a) (start b) \<le> 0) rs"

text \<open>
  What every call keeps true of the history: the cap is the constructor's 100, the list is
  no longer than the cap, and the cursor is \<open>-1\<close> or the index of a command of the list.
\<close>

definition historyInvariant :: "TimelineManager \<Rightarrow> bool" where
  "historyInvariant m \<longleftrightarrow>
     maxHistorySize m = 100 \<and> int (length (history m)) \<le> maxHistorySize m
     \<and> -1 \<le> historyIndex m \<and> historyIndex m < int (length (history m))"

definition undoOnce :: "env \<Rightarrow> TimelineManager \<Rightarrow> TimelineManager" where
  "undoOnce env m = snd (undo env m)"

text \<open>The clips of every track are pairwise non-overlapping.\<close>

definition tracksDisjoint :: "Track list \<Rightarrow> bool" where
  "tracksDisjoint ts =
     list_all (\<lambda>t. pairwiseNonOverlapping (map timelineRange (clips t))) ts"

text \<open>
  The instant of a timestamp in nanoseconds, a timestamp in normal form, and two ranges
  that cut a range in two: the first starts where the whole starts, the second starts where
  the first ends and ends where the whole ends, and neither ends before it starts.
\<close>

definition totalNanoseconds :: "Timestamp \<Rightarrow> int" where
  "totalNanoseconds ts = seconds ts * 1000000000 + nanoseconds ts"

definition normalized :: "Timestamp \<Rightarrow> bool" where
  "normalized ts \<longleftrightarrow> 0 \<le> nanoseconds ts \<and> nanoseconds ts < 1000000000"

definition partitions :: "TimeRange \<Rightarrow> TimeRange \<Rightarrow> TimeRange \<Rightarrow> bool" where
  "partitions whole a b \<longleftrightarrow>
     start a = start whole \<and> end' a = start b \<and> end' b = end' whole
     \<and> compare (start a) (end' a) \<le> 0 \<and> compare (start b) (end' b) \<le> 0"

section \<open>Example data\<close>

definition seconds_range :: "int \<Rightarrow> int \<Rightarrow> TimeRange" where
  "seconds_range a b = \<lparr>start = create a 0, end' = create b 0\<rparr>"

definition exampleClip :: "string \<Rightarrow> string \<Rightarrow> TimeRange \<Rightarrow> TimeRange \<Rightarrow> Clip" where
  "exampleClip cid tid tr sr =
     \<lparr>clip_id = cid, sourceId = ''source-1'', flowId = ''flow-1'', trackId = tid,
      timelineRange = tr, sourceRange = sr, speed = 1, transitions = None, effects = [],
      clip_metadata = None\<rparr>"

definition exampleTrack :: "string \<Rightarrow> Clip list \<Rightarrow> Track" where
  "exampleTrack tid cs =
     \<lparr>track_id = tid, track_name = ''Video 1'', track_type = Video, track_index = 0,
      clips = cs, muted = False, locked = False, visible = True, track_metadata = None\<rparr>"

definition exampleTimeline :: "Track list \<Rightarrow> Timeline" where
  "exampleTimeline ts =
     \<lparr>timeline_id = ''timeline-1'', projectId = ''project-1'',
      timeline_duration = maxEndOf ts, tracks = ts, markers = [],
      timeline_created = 0, timeline_updated = 0\<rparr>"

definition exampleEnv :: "string \<Rightarrow> env" where
  "exampleEnv tag = \<lparr>uuids = (\<lambda>k. tag @ replicate k CHR ''+''), dates = (\<lambda>k. k)\<rparr>"

definition emptyManager :: TimelineManager where
  "emptyManager = newTimelineManager (exampleTimeline [exampleTrack ''track-1'' []])"

definition emptyStore :: store where
  "emptyStore =
     \<lparr>flowObjects = (\<lambda>r. None), segmentArrays = (\<lambda>r. None), nextRef = 0,
      uuidSource = (\<lambda>k. ''uuid'' @ replicate k CHR ''+''), uuidCalls = 0,
      clock = (\<lambda>k. k), dateCalls = 0\<rparr>"

definition noData :: FlowData where
  "noData =
     \<lparr>data_id = None, data_sourceId = None, data_label = None, data_description = None,
      data_format = None, data_tags = None, data_created = None, data_updated = None,
      data_generation = None, data_segments = None\<rparr>"

definition exampleSegment :: "string \<Rightarrow> TimeRange \<Rightarrow> FlowSegment" where
  "exampleSegment sid tr =
     \<lparr>segment_id = sid, segment_flowId = [], timerange = tr, objectIds = [''cid''],
      tsOffset = None, segment_duration = None, mediaTimerange = Some tr,
      segment_created = 0, segment_updated = 0\<rparr>"

text \<open>A store with one new flow (reference 1) over an empty array (reference 0).\<close>

definition oneFlow :: store where
  "oneFlow = snd (newFlowModel noData emptyStore)"

definition twoSegments :: "FlowSegment list" where
  "twoSegments =
     [exampleSegment ''a'' (seconds_range 10 15), exampleSegment ''b'' (seconds_range 0 10)]"

text \<open>The store after the two segments were added to the flow at reference 1.\<close>

definition filledFlow :: store where
  "filledFlow = the (addSegments 1 twoSegments oneFlow)"

text \<open>
  Managers over one empty track: after adding a clip on \<open>[0s, 5s)\<close>, after adding a
  second clip on \<open>[5s, 10s)\<close>, and after adding a clip on \<open>[0s, 10s)\<close> that shows the
  source range \<open>[5s, 15s)\<close>.
\<close>

definition addedOnce :: TimelineManager where
  "addedOnce =
     snd (addClip (exampleEnv ''a'') ''track-1''
            (exampleClip [] [] (seconds_range 0 5) (seconds_range 0 5)) emptyManager)"

definition addedTwice :: TimelineManager where
  "addedTwice =
     snd (addClip (exampleEnv ''b'') ''track-1''
            (exampleClip [] [] (seconds_range 5 10) (seconds_range 0 5)) addedOnce)"

definition tenSeconds :: TimelineManager where
  "tenSeconds =
     snd (addClip (exampleEnv ''c'') ''track-1''
            (exampleClip [] [] (seconds_range 0 10) (seconds_range 5 15)) emptyManager)"

definition allClips :: "TimelineManager \<Rightarrow> Clip list" where
  "allClips m = concat (map clips (getTracks m))"

text \<open>
  Two more managers over the empty track: one clip that shows three seconds of source,
  \<open>[5s, 8s)\<close>, over the timeline range \<open>[0s, 10s)\<close> at speed 0.3; and one clip on the
  timeline range \<open>[2.5s, 12.5s)\<close> that shows the source range \<open>[5.5s, 15.5s)\<close>.
\<close>

definition slowClip :: TimelineManager where
  "slowClip =
     snd (addClip (exampleEnv ''d'') ''track-1''
            ((exampleClip [] [] (seconds_range 0 10) (seconds_range 5 8))\<lparr>speed := 3 / 10\<rparr>)
            emptyManager)"

definition halfSeconds :: "int \<Rightarrow> int \<Rightarrow> TimeRange" where
  "halfSeconds a b = \<lparr>start = create a 500000000, end' = create b 500000000\<rparr>"

definition offsetClip :: TimelineManager where
  "offsetClip =
     snd (addClip (exampleEnv ''e'') ''track-1''
            (exampleClip [] [] (halfSeconds 2 12) (halfSeconds 5 15)) emptyManager)"

section \<open>Timestamp creation\<close>

lemma create_concrete:
  "create 10 1500000000 = \<lparr>seconds = 11, nanoseconds = 500000000\<rparr>"
  by (simp add: create_def NANOSECONDS_PER_SECOND_def signed_modulo_int_def)

text \<open>
  C6 (the code at a negative nanosecond count): the seconds are folded by floor division
  but the nanoseconds by the truncating remainder, so \<open>create 0 (-1)\<close> keeps \<open>-1\<close>
  nanoseconds, outside \<open>[0, 1e9)\<close>, and differs from
  \<open>create (0 + (-1) div 1e9) ((-1) mod 1e9) = create (-1) 999999999\<close>.
\<close>

theorem create_negative_nanoseconds:
  "create 0 (-1) = \<lparr>seconds = -1, nanoseconds = -1\<rparr>
   \<and> create (0 + (-1) div 1000000000) ((-1) mod 1000000000)
       = \<lparr>seconds = -1, nanoseconds = 999999999\<rparr>"
  by (simp add: create_def NANOSECONDS_PER_SECOND_def signed_modulo_int_def)

section \<open>Timestamp parsing\<close>

text \<open>
  C7 (the code at a string of three components): \<open>fromString\<close> reads the first two
  components of \<open>"1:2:3"\<close> and returns the timestamp \<open>1:2\<close>; it does not reject
  the string.
\<close>

theorem fromString_three_components:
  "fromString decimalNumber ''1:2:3'' = Inr \<lparr>seconds = 1, nanoseconds = 2\<rparr>"
  by (simp add: fromString_def decimalNumber_def digitValue_def create_def
      NANOSECONDS_PER_SECOND_def signed_modulo_int_def)

section \<open>Ordering of timestamps and sorting\<close>

lemma compare_le_iff:
  "compare a b \<le> 0 \<longleftrightarrow> seconds a < seconds b \<or> (seconds a = seconds b \<and> nanoseconds a \<le> nanoseconds b)"
  by (auto simp: compare_def)

lemma compare_lt_iff:
  "compare a b < 0 \<longleftrightarrow> seconds a < seconds b \<or> (seconds a = seconds b \<and> nanoseconds a < nanoseconds b)"
  by (auto simp: compare_def)

lemma compare_gt_iff:
  "compare a b > 0 \<longleftrightarrow> compare b a < 0"
  by (auto simp: compare_def)

lemma compare_ge_iff:
  "compare a b \<ge> 0 \<longleftrightarrow> compare b a \<le> 0"
  by (auto simp: compare_def)

lemma compare_total: "compare a b \<le> 0 \<or> compare b a \<le> 0"
  by (auto simp: compare_le_iff)

lemma compare_trans: "compare a b \<le> 0 \<Longrightarrow> compare b c \<le> 0 \<Longrightarrow> compare a c \<le> 0"
  by (auto simp: compare_le_iff)

lemma overlaps_sym: "overlaps a b \<longleftrightarrow> overlaps b a"
  by (auto simp: overlaps_def compare_gt_iff)

lemma set_insertSorted: "set (insertSorted cmp x xs) = insert x (set xs)"
  by (induction xs) auto

lemma set_sortBy: "set (sortBy cmp xs) = set xs"
  unfolding sortBy_def by (induction xs) (auto simp: set_insertSorted)

lemma length_insertSorted: "length (insertSorted cmp x xs) = Suc (length xs)"
  by (induction xs) auto

lemma length_sortBy: "length (sortBy cmp xs) = length xs"
  unfolding sortBy_def by (induction xs) (auto simp: length_insertSorted)

lemma sorted_insertSorted:
  assumes total: "\<And>a b. cmp a b \<le> 0 \<or> cmp b a \<le> 0"
    and trans: "\<And>a b c. cmp a b \<le> 0 \<Longrightarrow> cmp b c \<le> 0 \<Longrightarrow> cmp a c \<le> 0"
  shows "sorted_wrt (\<lambda>a b. cmp a b \<le> 0) xs \<Longrightarrow> sorted_wrt (\<lambda>a b. cmp a b \<le> 0) (insertSorted cmp x xs)"
proof (induction xs)
  case Nil
  then show ?case by simp
next
  case (Cons y ys)
  show ?case
  proof (cases "cmp x y \<le> 0")
    case True
    with Cons.prems trans show ?thesis by auto
  next
    case False
    with total have "cmp y x \<le> 0" by blast
    with False Cons show ?thesis by (auto simp: set_insertSorted)
  qed
qed

lemma sorted_sortBy:
  assumes total: "\<And>a b. cmp a b \<le> 0 \<or> cmp b a \<le> 0"
    and trans: "\<And>a b c. cmp a b \<le> 0 \<Longrightarrow> cmp b c \<le> 0 \<Longrightarrow> cmp a c \<le> 0"
  shows "sorted_wrt (\<lambda>a b. cmp a b \<le> 0) (sortBy cmp xs)"
  unfolding sortBy_def
  by (induction xs) (auto intro: sorted_insertSorted [OF total trans])

lemma pairwise_insertSorted:
  assumes sym: "\<And>a b. P a b \<longleftrightarrow> P b a"
  shows "sorted_wrt P (insertSorted cmp x xs) \<longleftrightarrow> (\<forall>y\<in>set xs. P x y) \<and> sorted_wrt P xs"
  using sym by (induction xs) (auto simp: set_insertSorted)

lemma pairwise_sortBy:
  assumes sym: "\<And>a b. P a b \<longleftrightarrow> P b a"
  shows "sorted_wrt P (sortBy cmp xs) \<longleftrightarrow> sorted_wrt P xs"
  unfolding sortBy_def
proof (induction xs)
  case Nil
  show ?case by simp
next
  case (Cons x xs)
  have "set (foldr (insertSorted cmp) xs []) = set xs"
    using set_sortBy [of cmp xs] by (simp add: sortBy_def)
  with Cons show ?case
    by (simp add: pairwise_insertSorted [OF sym])
qed

lemma pairwise_snoc:
  assumes sym: "\<And>a b. P a b \<longleftrightarrow> P b a"
  shows "sorted_wrt P (xs @ [x]) \<longleftrightarrow> (\<forall>y\<in>set xs. P x y) \<and> sorted_wrt P xs"
  using sym by (auto simp: sorted_wrt_append)

section \<open>Adding segments to a flow\<close>

lemma addSegment_unfold:
  assumes "flowObjects st this = Some flow" and "segmentArrays st (segments flow) = Some segs"
  shows "addSegment this seg st =
     (let newSegment = seg\<lparr>segment_flowId := flow_id flow,
                             segment_created := clock st (dateCalls st),
                             segment_updated := clock st (Suc (dateCalls st))\<rparr>
      in if list_ex (\<lambda>s. overlaps (timerange seg) (timerange s)) segs
         then (Inl OverlapError, st\<lparr>dateCalls := Suc (Suc (dateCalls st))\<rparr>)
         else (Inr newSegment,
               st\<lparr>segmentArrays := (segmentArrays st)
                      (segments flow \<mapsto> sortBy byStart (segs @ [newSegment])),
                  dateCalls := Suc (Suc (Suc (dateCalls st))),
                  flowObjects := (flowObjects st)
                      (this \<mapsto> flow\<lparr>flow_updated := clock st (Suc (Suc (dateCalls st))),
                                      generation := generation flow + 1\<rparr>)\<rparr>))"
  using assms
  by (simp add: addSegment_def newDate_def validateSegmentTimeRange_def Let_def)

lemma isFlowE:
  assumes "isFlow st this"
  obtains flow segs where "flowObjects st this = Some flow"
    and "segmentArrays st (segments flow) = Some segs"
    and "segmentsOf st this = segs"
  using assms by (auto simp: isFlow_def segmentsOf_def split: option.splits)

lemma addSegment_fails_iff:
  assumes "isFlow st this"
  shows "fst (addSegment this seg st) = Inl OverlapError
         \<longleftrightarrow> list_ex (\<lambda>s. overlaps (timerange seg) (timerange s)) (segmentsOf st this)"
proof -
  from assms obtain flow segs where f: "flowObjects st this = Some flow"
    and a: "segmentArrays st (segments flow) = Some segs" and s: "segmentsOf st this = segs"
    by (rule isFlowE)
  show ?thesis
    by (simp add: addSegment_unfold [OF f a] s Let_def)
qed

lemma addSegment_success:
  assumes "isFlow st this" and "addSegment this seg st = (Inr x, st')"
  shows "isFlow st' this
         \<and> timerange x = timerange seg
         \<and> \<not> list_ex (\<lambda>s. overlaps (timerange seg) (timerange s)) (segmentsOf st this)
         \<and> segmentsOf st' this = sortBy byStart (segmentsOf st this @ [x])"
proof -
  from assms(1) obtain flow segs where f: "flowObjects st this = Some flow"
    and a: "segmentArrays st (segments flow) = Some segs" and s: "segmentsOf st this = segs"
    by (rule isFlowE)
  from assms(2) show ?thesis
    unfolding addSegment_unfold [OF f a] s [symmetric]
    by (auto simp: Let_def isFlow_def segmentsOf_def s [unfolded segmentsOf_def] f a split: if_splits)
qed

lemma byStart_total: "byStart a b \<le> 0 \<or> byStart b a \<le> 0"
  unfolding byStart_def by (rule compare_total)

lemma byStart_trans: "byStart a b \<le> 0 \<Longrightarrow> byStart b c \<le> 0 \<Longrightarrow> byStart a c \<le> 0"
  unfolding byStart_def by (rule compare_trans)

lemma sortedByStart_sortBy: "sortedByStart (map timerange (sortBy byStart xs))"
proof -
  have "sorted_wrt (\<lambda>a b. byStart a b \<le> 0) (sortBy byStart xs)"
    by (rule sorted_sortBy) (rule byStart_total, rule byStart_trans)
  then show ?thesis
    by (simp add: sortedByStart_def sorted_wrt_map byStart_def)
qed

lemma nonOverlapping_sortBy:
  "pairwiseNonOverlapping (map timerange (sortBy byStart xs))
   \<longleftrightarrow> pairwiseNonOverlapping (map timerange xs)"
  unfolding pairwiseNonOverlapping_def sorted_wrt_map
  by (rule pairwise_sortBy) (auto simp: overlaps_sym)

lemma nonOverlapping_snoc:
  "pairwiseNonOverlapping (map timerange (xs @ [x]))
   \<longleftrightarrow> \<not> list_ex (\<lambda>s. overlaps (timerange x) (timerange s)) xs
       \<and> pairwiseNonOverlapping (map timerange xs)"
  unfolding pairwiseNonOverlapping_def list_ex_iff
  by (auto simp: sorted_wrt_append overlaps_sym [of "timerange x"])

lemma addSegment_invariant:
  assumes "isFlow st this" and "addSegment this seg st = (Inr x, st')"
    and "pairwiseNonOverlapping (map timerange (segmentsOf st this))"
  shows "isFlow st' this
         \<and> pairwiseNonOverlapping (map timerange (segmentsOf st' this))
         \<and> sortedByStart (map timerange (segmentsOf st' this))"
proof -
  from addSegment_success [OF assms(1,2)]
  have fl: "isFlow st' this" and tr: "timerange x = timerange seg"
    and no: "\<not> list_ex (\<lambda>s. overlaps (timerange x) (timerange s)) (segmentsOf st this)"
    and eq: "segmentsOf st' this = sortBy byStart (segmentsOf st this @ [x])"
    by simp_all
  have "pairwiseNonOverlapping (map timerange (segmentsOf st this @ [x]))"
    using no assms(3) by (simp only: nonOverlapping_snoc) simp
  then show ?thesis
    using fl by (simp only: eq sortedByStart_sortBy nonOverlapping_sortBy)
qed

lemma addSegments_invariant:
  "isFlow st this \<Longrightarrow> addSegments this segs st = Some st'
   \<Longrightarrow> pairwiseNonOverlapping (map timerange (segmentsOf st this))
   \<Longrightarrow> sortedByStart (map timerange (segmentsOf st this))
   \<Longrightarrow> isFlow st' this
       \<and> pairwiseNonOverlapping (map timerange (segmentsOf st' this))
       \<and> sortedByStart (map timerange (segmentsOf st' this))"
proof (induction segs arbitrary: st)
  case Nil
  then show ?case by simp
next
  case (Cons seg rest)
  from Cons.prems(2) obtain x st1 where step: "addSegment this seg st = (Inr x, st1)"
    and more: "addSegments this rest st1 = Some st'"
    by (auto split: prod.splits sum.splits)
  from addSegment_invariant [OF Cons.prems(1) step Cons.prems(3)]
  show ?case using Cons.IH [OF _ more] by blast
qed

lemmas flow_eval = newFlowModel_def orUuid_def orNewDate_def uuidv4_def newDate_def newArray_def newObject_def
  noData_def emptyStore_def oneFlow_def exampleSegment_def seconds_range_def create_def NANOSECONDS_PER_SECOND_def
  signed_modulo_int_def addSegment_def validateSegmentTimeRange_def overlaps_def compare_def sortBy_def byStart_def
  isFlow_def segmentsOf_def pairwiseNonOverlapping_def sortedByStart_def Let_def

lemma addSegment_error_is_overlap:
  assumes "isFlow st this" and "fst (addSegment this seg st) = Inl e"
  shows "e = OverlapError"
proof -
  from assms(1) obtain flow segs where f: "flowObjects st this = Some flow"
    and a: "segmentArrays st (segments flow) = Some segs"
    by (rule isFlowE)
  from assms(2) show ?thesis
    by (simp add: addSegment_unfold [OF f a] Let_def split: if_splits)
qed

text \<open>
  C4: on a flow of the store, \<open>addSegment\<close> fails with \<open>OverlapError\<close> exactly when the
  range of the new segment overlaps the range of a segment the flow holds, under the test
  \<open>a.start < b.end && a.end > b.start\<close>, and it fails in no other way; and when the
  segments of the flow are pairwise non-overlapping and sorted by start, they are so again
  after any run of calls of \<open>addSegment\<close> that all succeed.
\<close>

theorem addSegment_overlap_sorted:
  assumes "isFlow st this"
  shows "(fst (addSegment this seg st) = Inl OverlapError
            \<longleftrightarrow> list_ex (\<lambda>s. overlaps (timerange seg) (timerange s)) (segmentsOf st this))
         \<and> (\<forall>e. fst (addSegment this seg st) = Inl e \<longrightarrow> e = OverlapError)
         \<and> (pairwiseNonOverlapping (map timerange (segmentsOf st this))
              \<and> sortedByStart (map timerange (segmentsOf st this))
              \<and> addSegments this segs st = Some st'
             \<longrightarrow> pairwiseNonOverlapping (map timerange (segmentsOf st' this))
                 \<and> sortedByStart (map timerange (segmentsOf st' this)))"
proof (intro conjI allI impI)
  show "fst (addSegment this seg st) = Inl OverlapError
        \<longleftrightarrow> list_ex (\<lambda>s. overlaps (timerange seg) (timerange s)) (segmentsOf st this)"
    by (rule addSegment_fails_iff [OF assms])
next
  fix e assume "fst (addSegment this seg st) = Inl e"
  with assms show "e = OverlapError" by (rule addSegment_error_is_overlap)
next
  assume h: "pairwiseNonOverlapping (map timerange (segmentsOf st this))
             \<and> sortedByStart (map timerange (segmentsOf st this))
             \<and> addSegments this segs st = Some st'"
  with addSegments_invariant [OF assms, of segs st']
  show "pairwiseNonOverlapping (map timerange (segmentsOf st' this))" by blast
  from h addSegments_invariant [OF assms, of segs st']
  show "sortedByStart (map timerange (segmentsOf st' this))" by blast
qed

text \<open>
  On a new flow: the segments \<open>[10s, 15s)\<close> and \<open>[0s, 10s)\<close> are added and end up in
  ascending order; \<open>[5s, 15s)\<close> is then refused.
\<close>

theorem addSegment_overlap_sorted_witness:
  "isFlow oneFlow 1
   \<and> pairwiseNonOverlapping (map timerange (segmentsOf oneFlow 1))
   \<and> sortedByStart (map timerange (segmentsOf oneFlow 1))
   \<and> addSegments 1 twoSegments oneFlow \<noteq> None
   \<and> pairwiseNonOverlapping (map timerange (segmentsOf (the (addSegments 1 twoSegments oneFlow)) 1))
   \<and> sortedByStart (map timerange (segmentsOf (the (addSegments 1 twoSegments oneFlow)) 1))
   \<and> map timerange (segmentsOf (the (addSegments 1 twoSegments oneFlow)) 1)
       = [seconds_range 0 10, seconds_range 10 15]
   \<and> isFlow (the (addSegments 1 twoSegments oneFlow)) 1
   \<and> fst (addSegment 1 (exampleSegment ''c'' (seconds_range 5 15))
             (the (addSegments 1 twoSegments oneFlow))) = Inl OverlapError"
proof -
  have fl: "isFlow oneFlow 1"
    by (simp add: flow_eval)
  have inv: "pairwiseNonOverlapping (map timerange (segmentsOf oneFlow 1))
             \<and> sortedByStart (map timerange (segmentsOf oneFlow 1))"
    by (simp add: flow_eval)
  have run: "addSegments 1 twoSegments oneFlow \<noteq> None"
    by (simp add: twoSegments_def flow_eval)
  then have some: "addSegments 1 twoSegments oneFlow = Some (the (addSegments 1 twoSegments oneFlow))"
    by simp
  have after: "pairwiseNonOverlapping (map timerange (segmentsOf (the (addSegments 1 twoSegments oneFlow)) 1))
               \<and> sortedByStart (map timerange (segmentsOf (the (addSegments 1 twoSegments oneFlow)) 1))"
    using addSegment_overlap_sorted [OF fl, of _ twoSegments "the (addSegments 1 twoSegments oneFlow)"] inv some
    by blast
  have content: "map timerange (segmentsOf (the (addSegments 1 twoSegments oneFlow)) 1)
                 = [seconds_range 0 10, seconds_range 10 15]"
    by (simp add: twoSegments_def flow_eval)
  have fl2: "isFlow (the (addSegments 1 twoSegments oneFlow)) 1"
    by (simp add: twoSegments_def flow_eval)
  have ov: "list_ex (\<lambda>s. overlaps (timerange (exampleSegment ''c'' (seconds_range 5 15))) (timerange s))
              (segmentsOf (the (addSegments 1 twoSegments oneFlow)) 1)"
    by (simp add: twoSegments_def flow_eval)
  have fails: "fst (addSegment 1 (exampleSegment ''c'' (seconds_range 5 15))
                 (the (addSegments 1 twoSegments oneFlow))) = Inl OverlapError"
    using addSegment_overlap_sorted [OF fl2, of "exampleSegment ''c'' (seconds_range 5 15)"] ov
    by blast
  from fl inv run after content fl2 fails show ?thesis by blast
qed

section \<open>Extraction and cloning leave the receiver unchanged\<close>

lemma uuidv4_frame [simp]:
  "flowObjects (snd (uuidv4 st)) = flowObjects st"
  "segmentArrays (snd (uuidv4 st)) = segmentArrays st"
  "nextRef (snd (uuidv4 st)) = nextRef st"
  by (simp_all add: uuidv4_def)

lemma newDate_frame [simp]:
  "flowObjects (snd (newDate st)) = flowObjects st"
  "segmentArrays (snd (newDate st)) = segmentArrays st"
  "nextRef (snd (newDate st)) = nextRef st"
  by (simp_all add: newDate_def)

lemma orUuid_frame [simp]:
  "flowObjects (snd (orUuid s st)) = flowObjects st"
  "segmentArrays (snd (orUuid s st)) = segmentArrays st"
  "nextRef (snd (orUuid s st)) = nextRef st"
  by (simp_all add: orUuid_def split: option.splits)

lemma orNewDate_frame [simp]:
  "flowObjects (snd (orNewDate d st)) = flowObjects st"
  "segmentArrays (snd (orNewDate d st)) = segmentArrays st"
  "nextRef (snd (orNewDate d st)) = nextRef st"
  by (simp_all add: orNewDate_def split: option.splits)

lemma newArray_frame [simp]:
  "fst (newArray xs st) = nextRef st"
  "flowObjects (snd (newArray xs st)) = flowObjects st"
  "segmentArrays (snd (newArray xs st)) = (segmentArrays st)(nextRef st \<mapsto> xs)"
  "nextRef (snd (newArray xs st)) = Suc (nextRef st)"
  by (simp_all add: newArray_def)

lemma newFlowModel_frame:
  assumes "data_segments d = Some arr"
  shows "fst (newFlowModel d st) = nextRef st"
    and "segmentArrays (snd (newFlowModel d st)) = segmentArrays st"
    and "nextRef (snd (newFlowModel d st)) = Suc (nextRef st)"
    and "r' \<noteq> nextRef st \<Longrightarrow> flowObjects (snd (newFlowModel d st)) r' = flowObjects st r'"
    and "map_option segments (flowObjects (snd (newFlowModel d st)) (nextRef st)) = Some arr"
  using assms
  by (simp_all add: newFlowModel_def newObject_def split_def Let_def)

text \<open>What \<open>addSegment\<close> may change: the receiver and the receiver's array.\<close>

lemma addSegment_frame:
  assumes "addSegment r seg st = (res, st')"
  shows "nextRef st' = nextRef st"
    and "r' \<noteq> r \<Longrightarrow> flowObjects st' r' = flowObjects st r'"
    and "map_option segments (flowObjects st' r) = map_option segments (flowObjects st r)"
    and "flowObjects st r = Some obj \<Longrightarrow> a \<noteq> segments obj \<Longrightarrow> segmentArrays st' a = segmentArrays st a"
    and "flowObjects st r = None \<Longrightarrow> segmentArrays st' a = segmentArrays st a"
  using assms
  by (auto simp: addSegment_def newDate_def validateSegmentTimeRange_def Let_def
      split: option.splits if_splits)

lemma extractSegments_frame:
  assumes "extractSegments r rng xs st = (res, st')"
    and "flowObjects st r = Some obj"
  shows "nextRef st' = nextRef st
         \<and> (\<forall>r'. r' \<noteq> r \<longrightarrow> flowObjects st' r' = flowObjects st r')
         \<and> (\<forall>a. a \<noteq> segments obj \<longrightarrow> segmentArrays st' a = segmentArrays st a)"
  using assms
proof (induction xs arbitrary: st obj)
  case Nil
  then show ?case by simp
next
  case (Cons x xs)
  let ?arg = "x\<lparr>segment_id := fst (uuidv4 st),
      timerange := \<lparr>start = (if compare (start (timerange x)) (start rng) > 0
               then start (timerange x) else start rng),
        end' = (if compare (end' (timerange x)) (end' rng) < 0
               then end' (timerange x) else end' rng)\<rparr>,
      mediaTimerange := (case mediaTimerange x of
               None \<Rightarrow> None
             | Some mt \<Rightarrow>
                 if compare (if compare (start (timerange x)) (start rng) > 0
               then start (timerange x) else start rng) (start (timerange x)) \<noteq> 0
                    \<or> compare (if compare (end' (timerange x)) (end' rng) < 0
               then end' (timerange x) else end' rng) (end' (timerange x)) \<noteq> 0
                 then (let startOffset = subtract (if compare (start (timerange x)) (start rng) > 0
               then start (timerange x) else start rng) (start (timerange x));
                           dur = subtract (if compare (end' (timerange x)) (end' rng) < 0
               then end' (timerange x) else end' rng) (if compare (start (timerange x)) (start rng) > 0
               then start (timerange x) else start rng);
                           newMediaStart = add (start mt) startOffset
                       in Some \<lparr>start = newMediaStart, end' = add newMediaStart dur\<rparr>)
                 else Some mt)\<rparr>"
  obtain res1 st1 where step: "addSegment r ?arg (snd (uuidv4 st)) = (res1, st1)"
    by (cases "addSegment r ?arg (snd (uuidv4 st))")
  have obj0: "flowObjects (snd (uuidv4 st)) r = Some obj" using Cons.prems(2) by simp
  note fr = addSegment_frame [OF step]
  from fr(3) obj0 obtain obj1 where obj1: "flowObjects st1 r = Some obj1"
    and same: "segments obj1 = segments obj"
    by (cases "flowObjects st1 r") auto
  have one: "nextRef st1 = nextRef st
         \<and> (\<forall>r'. r' \<noteq> r \<longrightarrow> flowObjects st1 r' = flowObjects st r')
         \<and> (\<forall>a. a \<noteq> segments obj \<longrightarrow> segmentArrays st1 a = segmentArrays st a)"
    using fr(1) fr(2) fr(4) [OF obj0] by simp
  show ?case
  proof (cases res1)
    case (Inl e)
    with Cons.prems(1) step have "st' = st1"
      by (simp add: split_def Let_def)
    with one show ?thesis by simp
  next
    case (Inr v)
    with Cons.prems(1) step have rest: "extractSegments r rng xs st1 = (res, st')"
      by (simp add: split_def Let_def)
    from Cons.IH [OF rest obj1] one same show ?thesis by simp
  qed
qed

lemma cloneSegments_frame [simp]:
  "flowObjects (snd (cloneSegments cid xs st)) = flowObjects st"
  "segmentArrays (snd (cloneSegments cid xs st)) = segmentArrays st"
  "nextRef (snd (cloneSegments cid xs st)) = nextRef st"
  by (induction xs arbitrary: st; simp add: split_def Let_def)+

lemma extractRange_frame:
  assumes f: "flowObjects st this = Some flow"
    and a: "segmentArrays st (segments flow) = Some segs"
    and r: "r < nextRef st"
  shows "flowObjects (snd (extractRange this rng newId st)) r = flowObjects st r
         \<and> segmentArrays (snd (extractRange this rng newId st)) r = segmentArrays st r
         \<and> (\<forall>n. fst (extractRange this rng newId st) = Inr n \<longrightarrow> nextRef st < n)"
proof -
  define st3 where "st3 = snd (newDate (snd (newDate (snd (orUuid newId st)))))"
  define st4 where "st4 = snd (newArray [] st3)"
  define d where "d = (spread flow)\<lparr>data_id := Some (fst (orUuid newId st)),
      data_created := Some (fst (newDate (snd (orUuid newId st)))),
      data_updated := Some (fst (newDate (snd (newDate (snd (orUuid newId st)))))),
      data_generation := Some 0,
      data_segments := Some (nextRef st)\<rparr>"
  define st5 where "st5 = snd (newFlowModel d st4)"
  define newFlow where "newFlow = Suc (nextRef st)"
  have n3: "nextRef st3 = nextRef st" and o3: "flowObjects st3 = flowObjects st"
    and a3: "segmentArrays st3 = segmentArrays st"
    by (simp_all add: st3_def)
  have n4: "nextRef st4 = Suc (nextRef st)" and o4: "flowObjects st4 = flowObjects st"
    and a4: "segmentArrays st4 = (segmentArrays st)(nextRef st \<mapsto> [])"
    by (simp_all add: st4_def n3 o3 a3)
  have ds: "data_segments d = Some (nextRef st)" by (simp add: d_def)
  have ret: "fst (newFlowModel d st4) = newFlow"
    by (simp add: newFlowModel_frame(1) [OF ds] n4 newFlow_def)
  have a5: "segmentArrays st5 = (segmentArrays st)(nextRef st \<mapsto> [])"
    by (simp add: st5_def newFlowModel_frame(2) [OF ds] a4)
  have n5: "nextRef st5 = Suc (Suc (nextRef st))"
    by (simp add: st5_def newFlowModel_frame(3) [OF ds] n4)
  have o5: "\<And>r'. r' \<noteq> newFlow \<Longrightarrow> flowObjects st5 r' = flowObjects st r'"
    using newFlowModel_frame(4) [OF ds, of _ st4] by (simp add: st5_def n4 o4 newFlow_def)
  have "map_option segments (flowObjects st5 newFlow) = Some (nextRef st)"
    using newFlowModel_frame(5) [OF ds, of st4] by (simp add: st5_def n4 newFlow_def)
  then obtain obj where obj: "flowObjects st5 newFlow = Some obj"
    and objsegs: "segments obj = nextRef st"
    by (cases "flowObjects st5 newFlow") auto
  obtain res st6 where loop:
    "extractSegments newFlow rng (getSegmentsInRange segs rng) st5 = (res, st6)"
    by (cases "extractSegments newFlow rng (getSegmentsInRange segs rng) st5")
  have unfold: "extractRange this rng newId st =
      (case res of Inl err \<Rightarrow> (Inl err, st6) | Inr u \<Rightarrow> (Inr newFlow, st6))"
    using f a loop ret
    by (simp add: extractRange_def split_def Let_def st5_def st4_def st3_def d_def
        split: sum.splits)
  from extractSegments_frame [OF loop obj] objsegs
  have fr: "\<And>r'. r' \<noteq> newFlow \<Longrightarrow> flowObjects st6 r' = flowObjects st5 r'"
    and fa: "\<And>x. x \<noteq> nextRef st \<Longrightarrow> segmentArrays st6 x = segmentArrays st5 x"
    by simp_all
  have snd_eq: "snd (extractRange this rng newId st) = st6"
    by (simp add: unfold split: sum.splits)
  have "flowObjects st6 r = flowObjects st r"
    using fr [of r] o5 [of r] r by (simp add: newFlow_def)
  moreover have "segmentArrays st6 r = segmentArrays st r"
    using fa [of r] a5 r by simp
  moreover have "\<forall>n. fst (extractRange this rng newId st) = Inr n \<longrightarrow> nextRef st < n"
    by (auto simp: unfold newFlow_def split: sum.splits)
  ultimately show ?thesis by (simp add: snd_eq)
qed

lemma clone_frame:
  assumes f: "flowObjects st this = Some flow"
    and a: "segmentArrays st (segments flow) = Some segs"
    and r: "r < nextRef st"
  shows "flowObjects (snd (clone this newId st)) r = flowObjects st r
         \<and> segmentArrays (snd (clone this newId st)) r = segmentArrays st r
         \<and> (\<forall>n. fst (clone this newId st) = Inr n \<longrightarrow> nextRef st < n)"
proof -
  define st3 where "st3 = snd (newDate (snd (newDate (snd (orUuid newId st)))))"
  define st4 where "st4 = snd (cloneSegments (fst (orUuid newId st)) segs st3)"
  define copies where "copies = fst (cloneSegments (fst (orUuid newId st)) segs st3)"
  define st5 where "st5 = snd (newArray copies st4)"
  define d where "d = (spread flow)\<lparr>data_id := Some (fst (orUuid newId st)),
      data_created := Some (fst (newDate (snd (orUuid newId st)))),
      data_updated := Some (fst (newDate (snd (newDate (snd (orUuid newId st)))))),
      data_generation := Some 0,
      data_segments := Some (nextRef st)\<rparr>"
  have n4: "nextRef st4 = nextRef st" and o4: "flowObjects st4 = flowObjects st"
    and a4: "segmentArrays st4 = segmentArrays st"
    by (simp_all add: st4_def st3_def)
  have n5: "nextRef st5 = Suc (nextRef st)" and o5: "flowObjects st5 = flowObjects st"
    and a5: "segmentArrays st5 = (segmentArrays st)(nextRef st \<mapsto> copies)"
    by (simp_all add: st5_def n4 o4 a4)
  have ds: "data_segments d = Some (nextRef st)" by (simp add: d_def)
  have unfold: "clone this newId st = (Inr (fst (newFlowModel d st5)), snd (newFlowModel d st5))"
    using f a
    by (simp add: clone_def split_def Let_def st5_def st4_def st3_def d_def copies_def n4 [unfolded st4_def st3_def])
  have "flowObjects (snd (newFlowModel d st5)) r = flowObjects st r"
    using newFlowModel_frame(4) [OF ds, of r st5] r by (simp add: n5 o5)
  moreover have "segmentArrays (snd (newFlowModel d st5)) r = segmentArrays st r"
    using r by (simp add: newFlowModel_frame(2) [OF ds] a5)
  moreover have "fst (newFlowModel d st5) = Suc (nextRef st)"
    by (simp add: newFlowModel_frame(1) [OF ds] n5)
  ultimately show ?thesis by (simp add: unfold)
qed

text \<open>
  C10: \<open>extractRange\<close> and \<open>clone\<close> leave the receiver as it was. For a flow of the
  store whose object and array were allocated before the call, the object (identifier,
  generation and every other field, the reference of its array included) and the content
  of its array (every segment with its identifier, range, object identifiers and media
  range) are the same after the call, whether the call returns or throws; the flow a call
  returns is another object than the receiver.
\<close>

theorem extractRange_clone_leave_receiver:
  assumes "flowObjects st this = Some flow"
    and "segmentArrays st (segments flow) = Some segs"
    and "this < nextRef st" and "segments flow < nextRef st"
  shows "flowObjects (snd (extractRange this rng newId st)) this = Some flow
         \<and> segmentArrays (snd (extractRange this rng newId st)) (segments flow) = Some segs
         \<and> flowObjects (snd (clone this newId st)) this = Some flow
         \<and> segmentArrays (snd (clone this newId st)) (segments flow) = Some segs
         \<and> (\<forall>n. fst (extractRange this rng newId st) = Inr n \<or> fst (clone this newId st) = Inr n
                \<longrightarrow> n \<noteq> this)"
  using extractRange_frame [OF assms(1,2,3), of rng newId]
        extractRange_frame [OF assms(1,2,4), of rng newId]
        clone_frame [OF assms(1,2,3), of newId]
        clone_frame [OF assms(1,2,4), of newId]
        assms
  by auto

lemmas extract_eval = filledFlow_def twoSegments_def extractRange_def clone_def spread_def
  getSegmentsInRange_def add_def subtract_def

text \<open>
  On the flow with the segments \<open>[0s, 10s)\<close> and \<open>[10s, 15s)\<close>: extracting
  \<open>[5s, 12s)\<close> returns a new flow holding \<open>[5s, 10s)\<close> and \<open>[10s, 12s)\<close>, cloning
  returns a new flow whose segments name the clone, and the receiver still holds its two
  segments.
\<close>

theorem extractRange_clone_leave_receiver_witness:
  "flowObjects filledFlow 1 \<noteq> None
   \<and> segmentArrays filledFlow (segments (the (flowObjects filledFlow 1))) \<noteq> None
   \<and> 1 < nextRef filledFlow
   \<and> segments (the (flowObjects filledFlow 1)) < nextRef filledFlow
   \<and> fst (extractRange 1 (seconds_range 5 12) None filledFlow) = Inr 3
   \<and> map timerange (segmentsOf (snd (extractRange 1 (seconds_range 5 12) None filledFlow)) 3)
       = [seconds_range 5 10, seconds_range 10 12]
   \<and> map timerange (segmentsOf (snd (extractRange 1 (seconds_range 5 12) None filledFlow)) 1)
       = [seconds_range 0 10, seconds_range 10 15]
   \<and> flowObjects (snd (extractRange 1 (seconds_range 5 12) None filledFlow)) 1
       = flowObjects filledFlow 1
   \<and> segmentArrays (snd (extractRange 1 (seconds_range 5 12) None filledFlow)) 0
       = segmentArrays filledFlow 0
   \<and> map segment_flowId (segmentsOf (snd (clone 1 (Some ''copy'') filledFlow)) 3)
       = [''copy'', ''copy'']
   \<and> flowObjects (snd (clone 1 (Some ''copy'') filledFlow)) 1 = flowObjects filledFlow 1
   \<and> segmentArrays (snd (clone 1 (Some ''copy'') filledFlow)) 0 = segmentArrays filledFlow 0"
proof -
  have h: "flowObjects filledFlow 1 \<noteq> None \<and> segments (the (flowObjects filledFlow 1)) = 0
           \<and> segmentArrays filledFlow 0 \<noteq> None \<and> nextRef filledFlow = 2"
    by (simp add: extract_eval flow_eval)
  then have f: "flowObjects filledFlow 1 = Some (the (flowObjects filledFlow 1))"
    and a: "segmentArrays filledFlow (segments (the (flowObjects filledFlow 1)))
            = Some (the (segmentArrays filledFlow 0))"
    and n1: "1 < nextRef filledFlow"
    and n2: "segments (the (flowObjects filledFlow 1)) < nextRef filledFlow"
    by simp_all
  have ex: "fst (extractRange 1 (seconds_range 5 12) None filledFlow) = Inr 3"
    by (simp add: extract_eval flow_eval)
  have tr: "map timerange (segmentsOf (snd (extractRange 1 (seconds_range 5 12) None filledFlow)) 3)
            = [seconds_range 5 10, seconds_range 10 12]"
    by (simp add: extract_eval flow_eval)
  have cl: "map segment_flowId (segmentsOf (snd (clone 1 (Some ''copy'') filledFlow)) 3)
            = [''copy'', ''copy'']"
    by (simp add: extract_eval flow_eval)
  have old: "map timerange (segmentsOf filledFlow 1) = [seconds_range 0 10, seconds_range 10 15]"
    by (simp add: extract_eval flow_eval)
  note recv = extractRange_clone_leave_receiver [OF f a n1 n2]
  have e1: "flowObjects (snd (extractRange 1 (seconds_range 5 12) None filledFlow)) 1
            = flowObjects filledFlow 1"
    using recv [of "seconds_range 5 12" None] f by simp
  have e2: "segmentArrays (snd (extractRange 1 (seconds_range 5 12) None filledFlow)) 0
            = segmentArrays filledFlow 0"
    using recv [of "seconds_range 5 12" None] a h by simp
  have c1: "flowObjects (snd (clone 1 (Some ''copy'') filledFlow)) 1 = flowObjects filledFlow 1"
    using recv [of _ "Some ''copy''"] f by simp
  have c2: "segmentArrays (snd (clone 1 (Some ''copy'') filledFlow)) 0 = segmentArrays filledFlow 0"
    using recv [of _ "Some ''copy''"] a h by simp
  have keep: "map timerange (segmentsOf (snd (extractRange 1 (seconds_range 5 12) None filledFlow)) 1)
              = [seconds_range 0 10, seconds_range 10 15]"
    using old e1 e2 h by (auto simp: segmentsOf_def)
  from h n1 n2 ex tr keep e1 e2 cl c1 c2 show ?thesis by simp
qed

section \<open>The timeline manager on concrete timelines\<close>

lemmas timeline_eval = addClip_def emptyManager_def newTimelineManager_def exampleTimeline_def
  exampleTrack_def exampleClip_def exampleEnv_def seconds_range_def getTrack_def getTracks_def
  getClip_def hasOverlap_def overlaps_def compare_def create_def NANOSECONDS_PER_SECOND_def
  signed_modulo_int_def findClipInsertIndex_def findIndex_def mutateTrack_def mutateClip_def
  setTracks_def splice_def relativeIndex_def executeCommand_def slice_def sliceFrom_def
  updateTimeline_def maxEndOf_def allClips_def Let_def

lemma addedOnce_tracks:
  "getTracks addedOnce =
     [exampleTrack ''track-1'' [exampleClip ''a'' ''track-1'' (seconds_range 0 5) (seconds_range 0 5)]]"
  by (simp add: addedOnce_def timeline_eval)

lemma addedOnce_history:
  "length (history addedOnce) = 1 \<and> historyIndex addedOnce = 0 \<and> maxHistorySize addedOnce = 100"
  by (simp add: addedOnce_def timeline_eval)

text \<open>
  C1 (the code after \<open>addClip\<close> and \<open>undo\<close>): \<open>undo\<close> returns \<open>true\<close> and moves the
  cursor, but \<open>applyUndo\<close> only logs the command; the clip that was added to the empty
  track is still on the track after the undo, so the state before the call is not restored.
\<close>

theorem undo_keeps_added_clip:
  "allClips emptyManager = []
   \<and> map clip_id (allClips addedOnce) = [''a'']
   \<and> fst (undo (exampleEnv ''u'') addedOnce) = Inr True
   \<and> map clip_id (allClips (snd (undo (exampleEnv ''u'') addedOnce))) = [''a'']
   \<and> getTracks (snd (undo (exampleEnv ''u'') addedOnce)) = getTracks addedOnce"
  by (simp add: addedOnce_def undo_def canUndo_def applyUndo_def timeline_eval)

text \<open>
  C2 (the code at a clip that starts after every clip of the track): \<open>findClipInsertIndex\<close>
  returns \<open>-1\<close> and \<open>splice(-1, 0, clip)\<close> inserts before the last element. After adding
  \<open>[0s, 5s)\<close> and then \<open>[5s, 10s)\<close> the track holds \<open>[5s, 10s)\<close> first: the clips are not
  sorted by start.
\<close>

theorem addClip_breaks_order:
  "map (\<lambda>c. (clip_id c, timelineRange c)) (allClips addedTwice)
     = [(''b'', seconds_range 5 10), (''a'', seconds_range 0 5)]
   \<and> \<not> sortedByStart (map timelineRange (allClips addedTwice))"
  by (simp add: addedTwice_def addedOnce_def sortedByStart_def timeline_eval)

text \<open>
  C3 as stated fails at the start of the clip: splitting the clip on \<open>[0s, 5s)\<close> at \<open>0s\<close>
  is accepted and returns the clips on \<open>[0s, 0s)\<close> and \<open>[0s, 5s)\<close>.
\<close>

theorem splitClip_at_start_succeeds:
  "map_option timelineRange (getClip addedOnce ''a'') = Some (seconds_range 0 5)
   \<and> map_sum id (map_option (map timelineRange)) (fst (splitClip (exampleEnv ''s'') ''a'' (create 0 0) addedOnce))
       = Inr (Some [seconds_range 0 0, seconds_range 0 5])"
  by (simp add: addedOnce_def splitClip_def isWithinRange_def subtract_def add_def timeline_eval)

section \<open>Splitting a clip\<close>

lemma splitClip_unfold:
  assumes "getClip m cid = Some clip" and "getTrack m (trackId clip) = Some track"
  shows "fst (splitClip env cid sp m) =
     (if \<not> isWithinRange sp (timelineRange clip) then Inl InvalidSplitPoint
      else Inr (Some
        [clip\<lparr>clip_id := uuids env 0,
               timelineRange := \<lparr>start = start (timelineRange clip), end' = sp\<rparr>,
               sourceRange := \<lparr>start = start (sourceRange clip),
                               end' = add (start (sourceRange clip))
                                        (subtract sp (start (timelineRange clip)))\<rparr>,
               transitions := Some \<lparr>transition_in = (case transitions clip of
                                                        None \<Rightarrow> None
                                                      | Some t \<Rightarrow> transition_in t),
                                    transition_out = None\<rparr>\<rparr>,
         clip\<lparr>clip_id := uuids env 1,
               timelineRange := \<lparr>start = sp, end' = end' (timelineRange clip)\<rparr>,
               sourceRange := \<lparr>start = add (start (sourceRange clip))
                                          (subtract sp (start (timelineRange clip))),
                               end' = end' (sourceRange clip)\<rparr>,
               transitions := Some \<lparr>transition_in = None,
                                    transition_out = (case transitions clip of
                                                         None \<Rightarrow> None
                                                       | Some t \<Rightarrow> transition_out t)\<rparr>\<rparr>]))"
    and "\<not> isWithinRange sp (timelineRange clip) \<Longrightarrow> snd (splitClip env cid sp m) = m"
  using assms by (simp_all add: splitClip_def Let_def)

lemma isWithinRange_iff:
  "isWithinRange ts rng \<longleftrightarrow> compare (start rng) ts \<le> 0 \<and> compare ts (end' rng) < 0"
  by (simp add: isWithinRange_def compare_ge_iff)

lemma compare_refl [simp]: "compare a a = 0"
  by (simp add: compare_def)

text \<open>
  C3, amended: for a clip of the timeline whose track exists, \<open>splitClip\<close> fails with
  \<open>InvalidSplitPoint\<close> exactly when the split point is outside the half-open range of the
  clip, \<open>start \<le> splitPoint < end\<close>; it fails in no other way, a failed call leaves the
  manager unchanged, and a split point equal to the end of the clip fails.
\<close>

theorem splitClip_rejects_outside_range:
  assumes "getClip m cid = Some clip" and "getTrack m (trackId clip) = Some track"
  shows "(fst (splitClip env cid sp m) = Inl InvalidSplitPoint
            \<longleftrightarrow> \<not> (compare (start (timelineRange clip)) sp \<le> 0
                    \<and> compare sp (end' (timelineRange clip)) < 0))
         \<and> (\<forall>e. fst (splitClip env cid sp m) = Inl e
                \<longrightarrow> e = InvalidSplitPoint \<and> snd (splitClip env cid sp m) = m)
         \<and> fst (splitClip env cid (end' (timelineRange clip)) m) = Inl InvalidSplitPoint
         \<and> snd (splitClip env cid (end' (timelineRange clip)) m) = m"
proof (intro conjI allI impI)
  show "fst (splitClip env cid sp m) = Inl InvalidSplitPoint
        \<longleftrightarrow> \<not> (compare (start (timelineRange clip)) sp \<le> 0
                \<and> compare sp (end' (timelineRange clip)) < 0)"
    by (simp add: splitClip_unfold(1) [OF assms] isWithinRange_iff)
next
  fix e assume e: "fst (splitClip env cid sp m) = Inl e"
  then have out: "\<not> isWithinRange sp (timelineRange clip)"
    by (simp add: splitClip_unfold(1) [OF assms] split: if_splits)
  with e show "e = InvalidSplitPoint"
    by (simp add: splitClip_unfold(1) [OF assms])
  from out show "snd (splitClip env cid sp m) = m"
    by (rule splitClip_unfold(2) [OF assms])
next
  have out: "\<not> isWithinRange (end' (timelineRange clip)) (timelineRange clip)"
    by (simp add: isWithinRange_iff)
  then show "fst (splitClip env cid (end' (timelineRange clip)) m) = Inl InvalidSplitPoint"
    by (simp add: splitClip_unfold(1) [OF assms])
  from out show "snd (splitClip env cid (end' (timelineRange clip)) m) = m"
    by (rule splitClip_unfold(2) [OF assms])
qed

lemma addedOnce_clip:
  "getClip addedOnce ''a'' = Some (exampleClip ''a'' ''track-1'' (seconds_range 0 5) (seconds_range 0 5))"
  by (simp add: getClip_def addedOnce_tracks) (simp add: exampleTrack_def exampleClip_def)

lemma addedOnce_track:
  "getTrack addedOnce ''track-1'' =
     Some (exampleTrack ''track-1'' [exampleClip ''a'' ''track-1'' (seconds_range 0 5) (seconds_range 0 5)])"
  by (simp add: getTrack_def addedOnce_tracks) (simp add: exampleTrack_def)

text \<open>The clip on \<open>[0s, 5s)\<close>: split points \<open>5s\<close> (its end) and \<open>7s\<close> are refused.\<close>

theorem splitClip_rejects_outside_range_witness:
  "getClip addedOnce ''a'' \<noteq> None
   \<and> map_option timelineRange (getClip addedOnce ''a'') = Some (seconds_range 0 5)
   \<and> getTrack addedOnce (trackId (the (getClip addedOnce ''a''))) \<noteq> None
   \<and> fst (splitClip (exampleEnv ''s'') ''a'' (create 5 0) addedOnce) = Inl InvalidSplitPoint
   \<and> snd (splitClip (exampleEnv ''s'') ''a'' (create 5 0) addedOnce) = addedOnce
   \<and> fst (splitClip (exampleEnv ''s'') ''a'' (create 7 0) addedOnce) = Inl InvalidSplitPoint
   \<and> snd (splitClip (exampleEnv ''s'') ''a'' (create 7 0) addedOnce) = addedOnce"
proof -
  let ?clip = "exampleClip ''a'' ''track-1'' (seconds_range 0 5) (seconds_range 0 5)"
  have tid: "trackId ?clip = ''track-1''" by (simp add: exampleClip_def)
  have tr: "timelineRange ?clip = seconds_range 0 5" by (simp add: exampleClip_def)
  note c = addedOnce_clip
  have t: "getTrack addedOnce (trackId ?clip) =
     Some (exampleTrack ''track-1'' [exampleClip ''a'' ''track-1'' (seconds_range 0 5) (seconds_range 0 5)])"
    by (simp only: tid addedOnce_track)
  note main = splitClip_rejects_outside_range [OF c t]
  have e: "end' (timelineRange ?clip) = create 5 0"
    by (simp add: exampleClip_def seconds_range_def)
  have five: "fst (splitClip (exampleEnv ''s'') ''a'' (create 5 0) addedOnce) = Inl InvalidSplitPoint
     \<and> snd (splitClip (exampleEnv ''s'') ''a'' (create 5 0) addedOnce) = addedOnce"
    using main [of "exampleEnv ''s''"] by (simp add: e)
  have out: "\<not> (compare (start (timelineRange ?clip)) (create 7 0) \<le> 0
                \<and> compare (create 7 0) (end' (timelineRange ?clip)) < 0)"
    by (simp add: exampleClip_def seconds_range_def create_def compare_def
        NANOSECONDS_PER_SECOND_def signed_modulo_int_def)
  have seven: "fst (splitClip (exampleEnv ''s'') ''a'' (create 7 0) addedOnce) = Inl InvalidSplitPoint
     \<and> snd (splitClip (exampleEnv ''s'') ''a'' (create 7 0) addedOnce) = addedOnce"
    using main [of "exampleEnv ''s''" "create 7 0"] out by blast
  show ?thesis
    using five seven by (simp add: c addedOnce_track tid tr)
qed

lemma tenSeconds_tracks:
  "getTracks tenSeconds =
     [exampleTrack ''track-1'' [exampleClip ''c'' ''track-1'' (seconds_range 0 10) (seconds_range 5 15)]]"
  by (simp add: tenSeconds_def timeline_eval)

section \<open>Failed calls\<close>

lemma addClip_failure:
  "fst (addClip env tid clip m) = Inl e \<Longrightarrow> e = OverlapError \<and> snd (addClip env tid clip m) = m"
  by (auto simp: addClip_def Let_def split: option.splits if_splits)

lemma moveClip_failure:
  "fst (moveClip env cid tid ts m) = Inl e \<Longrightarrow> e = OverlapError \<and> snd (moveClip env cid tid ts m) = m"
  by (auto simp: moveClip_def Let_def split: option.splits if_splits)

lemma trimClip_failure:
  "fst (trimClip env cid sr tr m) = Inl e \<Longrightarrow> e = OverlapError \<and> snd (trimClip env cid sr tr m) = m"
  by (auto simp: trimClip_def Let_def split: option.splits if_splits)

lemma splitClip_failure:
  "fst (splitClip env cid sp m) = Inl e \<Longrightarrow> e = InvalidSplitPoint \<and> snd (splitClip env cid sp m) = m"
  by (auto simp: splitClip_def Let_def split: option.splits if_splits)

lemma addSegment_failure:
  "fst (addSegment this seg st) = Inl e \<Longrightarrow>
     flowObjects (snd (addSegment this seg st)) = flowObjects st
     \<and> segmentArrays (snd (addSegment this seg st)) = segmentArrays st"
  by (auto simp: addSegment_def newDate_def validateSegmentTimeRange_def Let_def
      split: option.splits if_splits)

text \<open>
  C8: a call of \<open>addClip\<close>, \<open>moveClip\<close>, \<open>trimClip\<close> or \<open>splitClip\<close> that throws
  leaves the manager (timeline with its tracks, clips and duration, view state, history and
  cursor) exactly as it was, and throws \<open>OverlapError\<close>, respectively
  \<open>InvalidSplitPoint\<close>; a call of \<open>addSegment\<close> that throws leaves every flow object
  (generation included) and every array of segments of the store as it was.
\<close>

theorem failed_mutator_changes_nothing:
  "(fst (addClip env tid clip m) = Inl e
      \<longrightarrow> e = OverlapError \<and> snd (addClip env tid clip m) = m)
   \<and> (fst (moveClip env cid tid ts m) = Inl e
      \<longrightarrow> e = OverlapError \<and> snd (moveClip env cid tid ts m) = m)
   \<and> (fst (trimClip env cid sr tr m) = Inl e
      \<longrightarrow> e = OverlapError \<and> snd (trimClip env cid sr tr m) = m)
   \<and> (fst (splitClip env cid sp m) = Inl e
      \<longrightarrow> e = InvalidSplitPoint \<and> snd (splitClip env cid sp m) = m)
   \<and> (fst (addSegment this seg st) = Inl e
      \<longrightarrow> flowObjects (snd (addSegment this seg st)) = flowObjects st
          \<and> segmentArrays (snd (addSegment this seg st)) = segmentArrays st)"
proof -
  have a: "fst (addClip env tid clip m) = Inl e
      \<longrightarrow> e = OverlapError \<and> snd (addClip env tid clip m) = m"
    using addClip_failure [of env tid clip m e] by blast
  have b: "fst (moveClip env cid tid ts m) = Inl e
      \<longrightarrow> e = OverlapError \<and> snd (moveClip env cid tid ts m) = m"
    using moveClip_failure [of env cid tid ts m e] by blast
  have c: "fst (trimClip env cid sr tr m) = Inl e
      \<longrightarrow> e = OverlapError \<and> snd (trimClip env cid sr tr m) = m"
    using trimClip_failure [of env cid sr tr m e] by blast
  have d: "fst (splitClip env cid sp m) = Inl e
      \<longrightarrow> e = InvalidSplitPoint \<and> snd (splitClip env cid sp m) = m"
    using splitClip_failure [of env cid sp m e] by blast
  have f: "fst (addSegment this seg st) = Inl e
      \<longrightarrow> flowObjects (snd (addSegment this seg st)) = flowObjects st
          \<and> segmentArrays (snd (addSegment this seg st)) = segmentArrays st"
    using addSegment_failure [of this seg st e] by blast
  from a b c d f show ?thesis by (intro conjI)
qed

lemma addedTwice_tracks:
  "getTracks addedTwice =
     [exampleTrack ''track-1''
        [exampleClip ''b'' ''track-1'' (seconds_range 5 10) (seconds_range 0 5),
         exampleClip ''a'' ''track-1'' (seconds_range 0 5) (seconds_range 0 5)]]"
  by (simp add: addedTwice_def addedOnce_def timeline_eval)

lemma addClip_fails:
  "fst (addClip (exampleEnv ''x'') ''track-1''
          (exampleClip [] [] (seconds_range 3 8) (seconds_range 0 5)) addedTwice) = Inl OverlapError"
  by (simp add: addClip_def getTrack_def addedTwice_tracks exampleTrack_def exampleClip_def hasOverlap_def overlaps_def seconds_range_def
        compare_def create_def NANOSECONDS_PER_SECOND_def signed_modulo_int_def)

lemma moveClip_fails:
  "fst (moveClip (exampleEnv ''x'') ''a'' ''track-1'' (create 7 0) addedTwice) = Inl OverlapError"
  by (simp add: moveClip_def getTrack_def getClip_def addedTwice_tracks exampleTrack_def exampleClip_def hasOverlap_def overlaps_def seconds_range_def
        duration_def add_def subtract_def
        compare_def create_def NANOSECONDS_PER_SECOND_def signed_modulo_int_def)

lemma trimClip_fails:
  "fst (trimClip (exampleEnv ''x'') ''a'' None (Some (seconds_range 0 6)) addedTwice) = Inl OverlapError"
  by (simp add: trimClip_def getTrack_def getClip_def addedTwice_tracks exampleTrack_def exampleClip_def hasOverlap_def overlaps_def seconds_range_def
        compare_def create_def NANOSECONDS_PER_SECOND_def signed_modulo_int_def)

lemma splitClip_fails:
  "fst (splitClip (exampleEnv ''x'') ''a'' (create 5 0) addedTwice) = Inl InvalidSplitPoint"
  by (simp add: splitClip_def getTrack_def getClip_def addedTwice_tracks exampleTrack_def exampleClip_def isWithinRange_def seconds_range_def
        compare_def create_def NANOSECONDS_PER_SECOND_def signed_modulo_int_def)

lemma addSegment_fails:
  "fst (addSegment 1 (exampleSegment ''c'' (seconds_range 5 15)) filledFlow) = Inl OverlapError"
  by (simp add: extract_eval flow_eval)

text \<open>One failing call of each of the five methods, on the example timeline and flow.\<close>

theorem failed_mutator_changes_nothing_witness:
  "fst (addClip (exampleEnv ''x'') ''track-1''
          (exampleClip [] [] (seconds_range 3 8) (seconds_range 0 5)) addedTwice) = Inl OverlapError
   \<and> snd (addClip (exampleEnv ''x'') ''track-1''
          (exampleClip [] [] (seconds_range 3 8) (seconds_range 0 5)) addedTwice) = addedTwice
   \<and> fst (moveClip (exampleEnv ''x'') ''a'' ''track-1'' (create 7 0) addedTwice) = Inl OverlapError
   \<and> snd (moveClip (exampleEnv ''x'') ''a'' ''track-1'' (create 7 0) addedTwice) = addedTwice
   \<and> fst (trimClip (exampleEnv ''x'') ''a'' None (Some (seconds_range 0 6)) addedTwice) = Inl OverlapError
   \<and> snd (trimClip (exampleEnv ''x'') ''a'' None (Some (seconds_range 0 6)) addedTwice) = addedTwice
   \<and> fst (splitClip (exampleEnv ''x'') ''a'' (create 5 0) addedTwice) = Inl InvalidSplitPoint
   \<and> snd (splitClip (exampleEnv ''x'') ''a'' (create 5 0) addedTwice) = addedTwice
   \<and> fst (addSegment 1 (exampleSegment ''c'' (seconds_range 5 15)) filledFlow) = Inl OverlapError
   \<and> flowObjects (snd (addSegment 1 (exampleSegment ''c'' (seconds_range 5 15)) filledFlow))
       = flowObjects filledFlow
   \<and> segmentArrays (snd (addSegment 1 (exampleSegment ''c'' (seconds_range 5 15)) filledFlow))
       = segmentArrays filledFlow"
  using failed_mutator_changes_nothing
          [of "exampleEnv ''x''" "''track-1''"
              "exampleClip [] [] (seconds_range 3 8) (seconds_range 0 5)" addedTwice OverlapError
              "''a''" "create 7 0" None "Some (seconds_range 0 6)" _
              1 "exampleSegment ''c'' (seconds_range 5 15)" filledFlow]
        failed_mutator_changes_nothing
          [of "exampleEnv ''x''" _ _ addedTwice InvalidSplitPoint "''a''" _ _ _ "create 5 0"]
        addClip_fails moveClip_fails trimClip_fails splitClip_fails addSegment_fails
  by simp

section \<open>The bounded history\<close>

lemma updateTimeline_history [simp]:
  "history (updateTimeline d m) = history m"
  "historyIndex (updateTimeline d m) = historyIndex m"
  "maxHistorySize (updateTimeline d m) = maxHistorySize m"
  by (simp_all add: updateTimeline_def)

lemma setTracks_history [simp]:
  "history (setTracks ts m) = history m"
  "historyIndex (setTracks ts m) = historyIndex m"
  "maxHistorySize (setTracks ts m) = maxHistorySize m"
  by (simp_all add: setTracks_def)

lemma mutateTrack_history [simp]:
  "history (mutateTrack tid f m) = history m"
  "historyIndex (mutateTrack tid f m) = historyIndex m"
  "maxHistorySize (mutateTrack tid f m) = maxHistorySize m"
  by (simp_all add: mutateTrack_def)

lemma mutateClip_history [simp]:
  "history (mutateClip cid f m) = history m"
  "historyIndex (mutateClip cid f m) = historyIndex m"
  "maxHistorySize (mutateClip cid f m) = maxHistorySize m"
  by (simp_all add: mutateClip_def)

lemma historyInvariant_cong:
  "history m' = history m \<Longrightarrow> historyIndex m' = historyIndex m
   \<Longrightarrow> maxHistorySize m' = maxHistorySize m \<Longrightarrow> historyInvariant m' = historyInvariant m"
  by (simp add: historyInvariant_def)

lemma historyInvariant_frame [simp]:
  "historyInvariant (updateTimeline d m) = historyInvariant m"
  "historyInvariant (setTracks ts m) = historyInvariant m"
  "historyInvariant (mutateTrack tid f m) = historyInvariant m"
  "historyInvariant (mutateClip cid g m) = historyInvariant m"
  by (simp_all add: historyInvariant_def)

text \<open>
  Recording a command: the commands after the cursor are dropped, the command is appended,
  and the list is cut to its last 100 commands; the cursor is on the new command.
\<close>

lemma executeCommand_history:
  assumes "historyInvariant m"
  shows "history (executeCommand c m) =
           (let kept = take (nat (historyIndex m + 1)) (history m) @ [c]
            in drop (length kept - 100) kept)"
    and "historyIndex (executeCommand c m) = int (length (history (executeCommand c m))) - 1"
    and "maxHistorySize (executeCommand c m) = maxHistorySize m"
  using assms
  by (auto simp: executeCommand_def historyInvariant_def slice_def sliceFrom_def
      relativeIndex_def Let_def min_def max_def nat_diff_distrib)

lemma historyInvariant_executeCommand:
  assumes "historyInvariant m"
  shows "historyInvariant (executeCommand c m)"
  using executeCommand_history [OF assms, of c] assms
  by (auto simp: historyInvariant_def Let_def)

lemma executeCommand_same_history:
  assumes "history m' = history m" "historyIndex m' = historyIndex m"
    "maxHistorySize m' = maxHistorySize m"
  shows "history (executeCommand c m') = history (executeCommand c m)"
    and "historyIndex (executeCommand c m') = historyIndex (executeCommand c m)"
    and "maxHistorySize (executeCommand c m') = maxHistorySize (executeCommand c m)"
  using assms by (simp_all add: executeCommand_def Let_def)

lemma historyInvariant_addClip:
  "historyInvariant m \<Longrightarrow> historyInvariant (snd (addClip env tid clip m))"
  by (auto simp: addClip_def Let_def historyInvariant_executeCommand split: option.splits)

lemma historyInvariant_removeClip:
  "historyInvariant m \<Longrightarrow> historyInvariant (snd (removeClip env cid m))"
  by (auto simp: removeClip_def Let_def historyInvariant_executeCommand split: option.splits prod.splits)

lemma historyInvariant_moveClip:
  "historyInvariant m \<Longrightarrow> historyInvariant (snd (moveClip env cid tid ts m))"
  by (auto simp: moveClip_def Let_def historyInvariant_executeCommand split: option.splits)

lemma historyInvariant_trimClip:
  "historyInvariant m \<Longrightarrow> historyInvariant (snd (trimClip env cid sr tr m))"
  by (auto simp: trimClip_def Let_def historyInvariant_executeCommand split: option.splits)

lemma historyInvariant_splitClip:
  "historyInvariant m \<Longrightarrow> historyInvariant (snd (splitClip env cid sp m))"
  by (auto simp: splitClip_def Let_def historyInvariant_executeCommand split: option.splits)

lemma undo_history:
  assumes "historyInvariant m"
  shows "history (snd (undo env m)) = history m"
    and "maxHistorySize (snd (undo env m)) = maxHistorySize m"
    and "historyIndex (snd (undo env m)) = (if historyIndex m \<ge> 0 then historyIndex m - 1 else historyIndex m)"
    and "fst (undo env m) = Inr (historyIndex m \<ge> 0)"
  using assms
  by (auto simp: undo_def canUndo_def applyUndo_def historyInvariant_def Let_def)

lemma historyInvariant_undo:
  "historyInvariant m \<Longrightarrow> historyInvariant (snd (undo env m))"
  using undo_history [of m env] by (auto simp: historyInvariant_def)

lemma historyInvariant_redo:
  "historyInvariant m \<Longrightarrow> historyInvariant (snd (redo env m))"
  by (auto simp: redo_def canRedo_def applyRedo_def historyInvariant_def Let_def)

lemma historyInvariant_perform:
  "historyInvariant m \<Longrightarrow> historyInvariant (perform op m)"
  by (cases op)
     (simp_all add: historyInvariant_addClip historyInvariant_removeClip historyInvariant_moveClip
        historyInvariant_trimClip historyInvariant_splitClip historyInvariant_undo
        historyInvariant_redo)

lemma historyInvariant_performAll:
  "historyInvariant m \<Longrightarrow> historyInvariant (performAll ops m)"
  unfolding performAll_def
  by (induction ops arbitrary: m) (simp_all add: historyInvariant_perform)

lemma historyInvariant_new: "historyInvariant (newTimelineManager t)"
  by (simp add: historyInvariant_def newTimelineManager_def)

lemma undoOnce_iterate:
  assumes "historyInvariant m"
  shows "historyInvariant ((undoOnce env ^^ k) m)
         \<and> historyIndex ((undoOnce env ^^ k) m) = max (-1) (historyIndex m - int k)"
proof (induction k)
  case 0
  from assms show ?case by (simp add: historyInvariant_def)
next
  case (Suc k)
  then have inv: "historyInvariant ((undoOnce env ^^ k) m)"
    and idx: "historyIndex ((undoOnce env ^^ k) m) = max (-1) (historyIndex m - int k)"
    by simp_all
  have step: "(undoOnce env ^^ Suc k) m = undoOnce env ((undoOnce env ^^ k) m)"
    by simp
  have inv': "historyInvariant (undoOnce env ((undoOnce env ^^ k) m))"
    using historyInvariant_undo [OF inv, of env] by (simp only: undoOnce_def)
  have idx': "historyIndex (undoOnce env ((undoOnce env ^^ k) m))
              = (if historyIndex ((undoOnce env ^^ k) m) \<ge> 0
                 then historyIndex ((undoOnce env ^^ k) m) - 1
                 else historyIndex ((undoOnce env ^^ k) m))"
    using undo_history(3) [OF inv, of env] by (simp only: undoOnce_def)
  show ?case
    unfolding step using inv' idx' idx by (simp add: max_def)
qed

text \<open>
  C9: after any run of calls of the manager that record or replay history
  (\<open>addClip\<close>, \<open>removeClip\<close>, \<open>moveClip\<close>, \<open>trimClip\<close>, \<open>splitClip\<close>, \<open>undo\<close>, \<open>redo\<close>;
  failed calls included) on a new manager, the cap is 100, the history holds at most 100
  commands, at most 100 undo steps are available (the cursor is below 100, and after 100
  calls of \<open>undo\<close> no further undo is possible), and recording a command keeps the
  commands up to the cursor only, appends the new one, evicts from the front down to 100
  and puts the cursor on the new command.
\<close>

theorem history_is_bounded:
  "historyInvariant (performAll ops (newTimelineManager t))
   \<and> maxHistorySize (performAll ops (newTimelineManager t)) = 100
   \<and> length (history (performAll ops (newTimelineManager t))) \<le> 100
   \<and> historyIndex (performAll ops (newTimelineManager t)) + 1 \<le> 100
   \<and> \<not> canUndo ((undoOnce env ^^ 100) (performAll ops (newTimelineManager t)))
   \<and> history (executeCommand c (performAll ops (newTimelineManager t)))
       = (let kept = take (nat (historyIndex (performAll ops (newTimelineManager t)) + 1))
                       (history (performAll ops (newTimelineManager t))) @ [c]
          in drop (length kept - 100) kept)
   \<and> historyIndex (executeCommand c (performAll ops (newTimelineManager t)))
       = int (length (history (executeCommand c (performAll ops (newTimelineManager t))))) - 1"
proof -
  let ?m = "performAll ops (newTimelineManager t)"
  have inv: "historyInvariant ?m"
    by (rule historyInvariant_performAll) (rule historyInvariant_new)
  have no: "\<not> canUndo ((undoOnce env ^^ 100) ?m)"
    using undoOnce_iterate [OF inv, where k = 100 and env = env] inv
    by (simp add: canUndo_def historyInvariant_def max_def)
  from inv no executeCommand_history(1,2) [OF inv, of c] show ?thesis
    by (simp add: historyInvariant_def)
qed

section \<open>Further facts on timestamps\<close>

text \<open>
  For a non-negative nanosecond count \<open>create\<close> does normalise; and \<open>fromString\<close>
  succeeds exactly when the string has at least two components and the first two convert
  to numbers, whereas \<open>timeRangeFromString\<close> checks the number of its parts.
\<close>

lemma smod_nonnegative:
  fixes k :: int
  assumes "0 \<le> k"
  shows "k smod 1000000000 = k mod 1000000000"
proof (cases "k = 0")
  case True
  then show ?thesis by (simp add: signed_modulo_int_def)
next
  case False
  with assms have "0 < k" by simp
  then show ?thesis by (simp add: signed_modulo_int_def)
qed

lemma create_normalizes_nonnegative:
  assumes "0 \<le> ns"
  shows "0 \<le> nanoseconds (create s ns) \<and> nanoseconds (create s ns) < 1000000000
         \<and> create s ns = create (s + ns div 1000000000) (ns mod 1000000000)"
proof -
  have lo: "0 \<le> ns mod 1000000000" and hi: "ns mod 1000000000 < 1000000000"
    by simp_all
  have again: "(ns mod 1000000000) smod 1000000000 = ns mod 1000000000"
    using smod_nonnegative [OF lo] by simp
  show ?thesis
    using lo hi
    by (simp add: create_def NANOSECONDS_PER_SECOND_def smod_nonnegative [OF assms] again)
qed

lemma fromString_succeeds_iff:
  "(\<exists>ts. fromString Number str = Inr ts)
   \<longleftrightarrow> (\<exists>a b rest. split '':'' str = a # b # rest \<and> Number a \<noteq> None \<and> Number b \<noteq> None)"
  by (auto simp: fromString_def split: list.splits option.splits)

lemma timeRangeFromString_three_parts:
  "timeRangeFromString decimalNumber ''1:0...2:0...3:0'' = Inl InvalidFormat"
  by (simp add: timeRangeFromString_def)

section \<open>Adding a clip keeps the clips of a track from overlapping\<close>

lemma updateFirst_find_None:
  "find P xs = None \<Longrightarrow> updateFirst P f xs = xs"
  by (induction xs) (auto split: if_splits)

lemma updateFirst_find_Some:
  "find P xs = Some x \<Longrightarrow>
     \<exists>pre post. xs = pre @ x # post \<and> (\<forall>y\<in>set pre. \<not> P y) \<and> P x
                \<and> updateFirst P f xs = pre @ f x # post"
proof (induction xs)
  case Nil
  then show ?case by simp
next
  case (Cons a xs)
  show ?case
  proof (cases "P a")
    case True
    with Cons.prems have "a = x" by simp
    with True show ?thesis by (intro exI [of _ "[]"] exI [of _ xs]) simp
  next
    case False
    with Cons.prems have "find P xs = Some x" by simp
    from Cons.IH [OF this] obtain pre post where
      "xs = pre @ x # post" "\<forall>y\<in>set pre. \<not> P y" "P x" "updateFirst P f xs = pre @ f x # post"
      by blast
    with False show ?thesis
      by (intro exI [of _ "a # pre"] exI [of _ post]) simp
  qed
qed

lemma pairwise_insert_at:
  assumes sym: "\<And>a b. P a b \<longleftrightarrow> P b a"
  shows "sorted_wrt P (take k xs @ x # drop k xs) \<longleftrightarrow> (\<forall>y\<in>set xs. P x y) \<and> sorted_wrt P xs"
proof -
  have split: "sorted_wrt P xs \<longleftrightarrow> sorted_wrt P (take k xs @ drop k xs)" by simp
  have elems: "set xs = set (take k xs) \<union> set (drop k xs)"
    using set_append [of "take k xs" "drop k xs"] by simp
  show ?thesis
    unfolding split elems sorted_wrt_append
    using sym by auto
qed

lemma splice_insert:
  "splice i 0 [x] xs = take (relativeIndex i xs) xs @ x # drop (relativeIndex i xs) xs"
  by (simp add: splice_def Let_def)

lemma nonOverlapping_splice:
  "pairwiseNonOverlapping (map timelineRange (splice i 0 [x] cs))
   \<longleftrightarrow> (\<forall>c\<in>set cs. \<not> overlaps (timelineRange x) (timelineRange c))
       \<and> pairwiseNonOverlapping (map timelineRange cs)"
  unfolding pairwiseNonOverlapping_def sorted_wrt_map splice_insert
  by (rule pairwise_insert_at) (auto simp: overlaps_sym)

lemma hasOverlap_None:
  "hasOverlap t r None \<longleftrightarrow> (\<exists>c\<in>set (clips t). overlaps r (timelineRange c))"
  by (simp add: hasOverlap_def list_ex_iff)

lemma hasOverlap_Some:
  "hasOverlap t r (Some cid)
   \<longleftrightarrow> (\<exists>c\<in>set (clips t). clip_id c \<noteq> cid \<and> overlaps r (timelineRange c))"
  by (auto simp: hasOverlap_def list_ex_iff)

lemma getTracks_setTracks [simp]: "getTracks (setTracks ts m) = ts"
  by (simp add: getTracks_def setTracks_def)

lemma getTracks_mutateTrack [simp]:
  "getTracks (mutateTrack tid f m) = updateFirst (\<lambda>t. track_id t = tid) f (getTracks m)"
  by (simp add: mutateTrack_def)

lemma getTracks_mutateClip [simp]:
  "getTracks (mutateClip cid f m) = mutateClipIn cid f (getTracks m)"
  by (simp add: mutateClip_def)

lemma getTracks_updateTimeline [simp]: "getTracks (updateTimeline d m) = getTracks m"
  by (simp add: getTracks_def updateTimeline_def)

lemma getTracks_executeCommand [simp]: "getTracks (executeCommand c m) = getTracks m"
  by (simp add: getTracks_def executeCommand_def Let_def)

lemma addClip_tracks:
  "getTracks (snd (addClip env tid clip m)) =
     (case getTrack m tid of
        None \<Rightarrow> getTracks m
      | Some track \<Rightarrow>
          if hasOverlap track (timelineRange clip) None then getTracks m
          else updateFirst (\<lambda>t. track_id t = tid)
                 (\<lambda>t. t\<lparr>clips := splice (findClipInsertIndex track (start (timelineRange clip))) 0
                                     [clip\<lparr>clip_id := uuids env 0, trackId := tid\<rparr>] (clips t)\<rparr>)
                 (getTracks m))"
  by (simp add: addClip_def Let_def split: option.splits)

lemma tracksDisjoint_addClip:
  assumes "tracksDisjoint (getTracks m)"
  shows "tracksDisjoint (getTracks (snd (addClip env tid clip m)))"
proof (cases "getTrack m tid")
  case None
  with assms show ?thesis by (simp add: addClip_tracks)
next
  case (Some track)
  show ?thesis
  proof (cases "hasOverlap track (timelineRange clip) None")
    case True
    with Some assms show ?thesis by (simp add: addClip_tracks)
  next
    case False
    let ?f = "\<lambda>t. t\<lparr>clips := splice (findClipInsertIndex track (start (timelineRange clip))) 0
                                     [clip\<lparr>clip_id := uuids env 0, trackId := tid\<rparr>] (clips t)\<rparr>"
    from Some have "find (\<lambda>t. track_id t = tid) (getTracks m) = Some track"
      by (simp add: getTrack_def)
    from updateFirst_find_Some [OF this, of ?f] obtain pre post where
      ts: "getTracks m = pre @ track # post"
      and upd: "updateFirst (\<lambda>t. track_id t = tid) ?f (getTracks m) = pre @ ?f track # post"
      by blast
    from assms ts have old: "tracksDisjoint pre" "tracksDisjoint post"
      "pairwiseNonOverlapping (map timelineRange (clips track))"
      by (simp_all add: tracksDisjoint_def)
    from False have free: "\<forall>c\<in>set (clips track). \<not> overlaps (timelineRange clip) (timelineRange c)"
      by (simp add: hasOverlap_None)
    have "pairwiseNonOverlapping (map timelineRange (clips (?f track)))"
      using old(3) free by (simp add: nonOverlapping_splice)
    with old(1,2) have "tracksDisjoint (pre @ ?f track # post)"
      by (simp add: tracksDisjoint_def)
    with Some False upd show ?thesis
      by (simp add: addClip_tracks)
  qed
qed

section \<open>Durations and offsets in nanoseconds\<close>

lemma subtract_total:
  "totalNanoseconds (subtract a b) = totalNanoseconds a - totalNanoseconds b"
  by (simp add: subtract_def totalNanoseconds_def NANOSECONDS_PER_SECOND_def Let_def)

lemma subtract_normalized:
  "normalized a \<Longrightarrow> normalized b \<Longrightarrow> normalized (subtract a b)"
  by (simp add: subtract_def normalized_def NANOSECONDS_PER_SECOND_def Let_def)

lemma create_total:
  assumes "0 \<le> ns"
  shows "totalNanoseconds (create s ns) = s * 1000000000 + ns"
    and "normalized (create s ns)"
proof -
  have m: "ns smod 1000000000 = ns mod 1000000000"
    by (rule smod_nonnegative [OF assms])
  have "(s + ns div 1000000000) * 1000000000 + ns mod 1000000000 = s * 1000000000 + ns"
    by (simp add: algebra_simps)
  then show "totalNanoseconds (create s ns) = s * 1000000000 + ns"
    by (simp add: create_def totalNanoseconds_def NANOSECONDS_PER_SECOND_def m)
  show "normalized (create s ns)"
    by (simp add: create_def normalized_def NANOSECONDS_PER_SECOND_def m)
qed

lemma add_total:
  assumes "normalized a" and "normalized b"
  shows "totalNanoseconds (add a b) = totalNanoseconds a + totalNanoseconds b"
    and "normalized (add a b)"
proof -
  have nn: "0 \<le> nanoseconds a + nanoseconds b"
    using assms by (simp add: normalized_def)
  show "totalNanoseconds (add a b) = totalNanoseconds a + totalNanoseconds b"
    unfolding add_def create_total(1) [OF nn]
    by (simp add: totalNanoseconds_def algebra_simps)
  show "normalized (add a b)"
    unfolding add_def by (rule create_total(2) [OF nn])
qed

lemma compare_le_total:
  assumes "normalized a" and "normalized b"
  shows "compare a b \<le> 0 \<longleftrightarrow> totalNanoseconds a \<le> totalNanoseconds b"
  using assms
  by (auto simp: compare_le_iff normalized_def totalNanoseconds_def)

lemma compare_lt_total:
  assumes "normalized a" and "normalized b"
  shows "compare a b < 0 \<longleftrightarrow> totalNanoseconds a < totalNanoseconds b"
  using assms
  by (auto simp: compare_lt_iff normalized_def totalNanoseconds_def)

section \<open>The two clips of a split\<close>

text \<open>
  C5, amended: for a clip of the timeline with timestamps in normal form and a split point
  strictly inside its timeline range, \<open>splitClip\<close> returns two clips. Their timeline
  ranges are \<open>[start, splitPoint)\<close> and \<open>[splitPoint, end)\<close> and partition the timeline
  range of the clip. Their source ranges are \<open>[sourceStart, cut)\<close> and
  \<open>[cut, sourceEnd)\<close>, where \<open>cut\<close> is in normal form and lies after the start of the
  source range by exactly the time from the start of the timeline range to the split
  point; they partition the source range of the clip exactly when that time is no longer
  than the source range.
\<close>

theorem splitClip_cuts_both_ranges:
  assumes "getClip m cid = Some clip" and "getTrack m (trackId clip) = Some track"
    and "compare (start (timelineRange clip)) sp < 0"
    and "compare sp (end' (timelineRange clip)) < 0"
    and "normalized (start (timelineRange clip))" and "normalized sp"
    and "normalized (start (sourceRange clip))" and "normalized (end' (sourceRange clip))"
  shows "(case fst (splitClip env cid sp m) of
            Inr (Some [first, second]) \<Rightarrow>
              timelineRange first = \<lparr>start = start (timelineRange clip), end' = sp\<rparr>
              \<and> timelineRange second = \<lparr>start = sp, end' = end' (timelineRange clip)\<rparr>
              \<and> partitions (timelineRange clip) (timelineRange first) (timelineRange second)
              \<and> start (sourceRange first) = start (sourceRange clip)
              \<and> end' (sourceRange first) = start (sourceRange second)
              \<and> end' (sourceRange second) = end' (sourceRange clip)
              \<and> normalized (end' (sourceRange first))
              \<and> totalNanoseconds (end' (sourceRange first))
                    - totalNanoseconds (start (sourceRange clip))
                  = totalNanoseconds sp - totalNanoseconds (start (timelineRange clip))
              \<and> (partitions (sourceRange clip) (sourceRange first) (sourceRange second)
                   \<longleftrightarrow> totalNanoseconds sp - totalNanoseconds (start (timelineRange clip))
                         \<le> totalNanoseconds (end' (sourceRange clip))
                           - totalNanoseconds (start (sourceRange clip)))
          | _ \<Rightarrow> False)"
proof -
  let ?tl = "timelineRange clip" and ?sr = "sourceRange clip"
  let ?off = "subtract sp (start ?tl)"
  let ?cut = "add (start ?sr) ?off"
  have within: "isWithinRange sp ?tl"
    using assms(3,4) by (simp add: isWithinRange_iff)
  have offn: "normalized ?off"
    using assms(5,6) by (simp add: subtract_normalized)
  have offt: "totalNanoseconds ?off = totalNanoseconds sp - totalNanoseconds (start ?tl)"
    by (rule subtract_total)
  have cutn: "normalized ?cut"
    using assms(7) offn by (rule add_total(2))
  have cutt: "totalNanoseconds ?cut = totalNanoseconds (start ?sr) + totalNanoseconds ?off"
    using assms(7) offn by (rule add_total(1))
  have pos: "0 < totalNanoseconds sp - totalNanoseconds (start ?tl)"
    using assms(3) compare_lt_total [OF assms(5,6)] by simp
  have tlp: "partitions ?tl \<lparr>start = start ?tl, end' = sp\<rparr> \<lparr>start = sp, end' = end' ?tl\<rparr>"
    using assms(3,4) by (simp add: partitions_def)
  have lower: "compare (start ?sr) ?cut \<le> 0"
    using compare_le_total [OF assms(7) cutn] cutt offt pos by simp
  have upper: "compare ?cut (end' ?sr) \<le> 0
               \<longleftrightarrow> totalNanoseconds sp - totalNanoseconds (start ?tl)
                     \<le> totalNanoseconds (end' ?sr) - totalNanoseconds (start ?sr)"
    using compare_le_total [OF cutn assms(8)] cutt offt by auto
  have srp: "partitions ?sr \<lparr>start = start ?sr, end' = ?cut\<rparr> \<lparr>start = ?cut, end' = end' ?sr\<rparr>
             \<longleftrightarrow> totalNanoseconds sp - totalNanoseconds (start ?tl)
                   \<le> totalNanoseconds (end' ?sr) - totalNanoseconds (start ?sr)"
    using lower upper by (simp add: partitions_def)
  have eq: "totalNanoseconds ?cut - totalNanoseconds (start ?sr)
            = totalNanoseconds sp - totalNanoseconds (start ?tl)"
    using cutt offt by simp
  show ?thesis
    using within tlp srp cutn eq
    by (simp add: splitClip_unfold(1) [OF assms(1,2)])
qed

lemma offsetClip_tracks:
  "getTracks offsetClip =
     [exampleTrack ''track-1'' [exampleClip ''e'' ''track-1'' (halfSeconds 2 12) (halfSeconds 5 15)]]"
  by (simp add: offsetClip_def halfSeconds_def timeline_eval)

lemma slowClip_tracks:
  "getTracks slowClip =
     [exampleTrack ''track-1''
        [(exampleClip ''d'' ''track-1'' (seconds_range 0 10) (seconds_range 5 8))\<lparr>speed := 3 / 10\<rparr>]]"
  by (simp add: slowClip_def timeline_eval)

lemmas range_eval = exampleClip_def exampleTrack_def seconds_range_def halfSeconds_def create_def
  compare_def add_def subtract_def normalized_def totalNanoseconds_def partitions_def
  NANOSECONDS_PER_SECOND_def signed_modulo_int_def

lemmas value_eval = exampleClip_def seconds_range_def halfSeconds_def create_def add_def
  subtract_def totalNanoseconds_def NANOSECONDS_PER_SECOND_def signed_modulo_int_def

text \<open>
  C5 as stated fails for a clip that shows less source than its timeline range is long:
  the clip on \<open>[0s, 10s)\<close> that shows the source range \<open>[5s, 8s)\<close> at speed 0.3, split at
  \<open>4s\<close>, returns the source ranges \<open>[5s, 9s)\<close> and \<open>[9s, 8s)\<close>; the second ends before it
  starts, and the two do not partition \<open>[5s, 8s)\<close>.
\<close>

theorem splitClip_short_source:
  "map_option (\<lambda>c. (timelineRange c, sourceRange c, speed c)) (getClip slowClip ''d'')
     = Some (seconds_range 0 10, seconds_range 5 8, 3 / 10)
   \<and> compare (start (seconds_range 0 10)) (create 4 0) < 0
   \<and> compare (create 4 0) (end' (seconds_range 0 10)) < 0
   \<and> map_sum id (map_option (map sourceRange))
         (fst (splitClip (exampleEnv ''s'') ''d'' (create 4 0) slowClip))
       = Inr (Some [seconds_range 5 9, seconds_range 9 8])
   \<and> \<not> partitions (seconds_range 5 8) (seconds_range 5 9) (seconds_range 9 8)"
proof -
  let ?clip = "(exampleClip ''d'' ''track-1'' (seconds_range 0 10) (seconds_range 5 8))\<lparr>speed := 3 / 10\<rparr>"
  have c: "getClip slowClip ''d'' = Some ?clip"
    by (simp add: getClip_def slowClip_tracks exampleTrack_def exampleClip_def)
  have t: "getTrack slowClip (trackId ?clip) = Some (exampleTrack ''track-1'' [?clip])"
    by (simp add: getTrack_def slowClip_tracks exampleTrack_def exampleClip_def)
  have within: "isWithinRange (create 4 0) (timelineRange ?clip)"
    by (simp add: isWithinRange_def range_eval)
  have res: "map_sum id (map_option (map sourceRange))
         (fst (splitClip (exampleEnv ''s'') ''d'' (create 4 0) slowClip))
       = Inr (Some [seconds_range 5 9, seconds_range 9 8])"
    using within by (simp add: splitClip_unfold(1) [OF c t]) (simp add: range_eval)
  have no: "\<not> partitions (seconds_range 5 8) (seconds_range 5 9) (seconds_range 9 8)"
    by (simp add: range_eval)
  have lo: "compare (start (seconds_range 0 10)) (create 4 0) < 0"
    and hi: "compare (create 4 0) (end' (seconds_range 0 10)) < 0"
    by (simp_all add: range_eval)
  have descr: "map_option (\<lambda>c. (timelineRange c, sourceRange c, speed c)) (getClip slowClip ''d'')
     = Some (seconds_range 0 10, seconds_range 5 8, 3 / 10)"
    by (simp add: c exampleClip_def)
  from descr lo hi res no show ?thesis by blast
qed

text \<open>
  The clip with timeline range \<open>[0s, 10s)\<close> and source range \<open>[5s, 15s)\<close>, split at
  \<open>4s\<close>: timeline ranges \<open>[0s, 4s)\<close> and \<open>[4s, 10s)\<close>, source ranges \<open>[5s, 9s)\<close> and
  \<open>[9s, 15s)\<close>. The clip with timeline range \<open>[2.5s, 12.5s)\<close> and source range
  \<open>[5.5s, 15.5s)\<close>, split at \<open>6.25s\<close>: the offset \<open>3.75s\<close> borrows a second, the cut
  \<open>9.25s\<close> carries one.
\<close>

theorem splitClip_cuts_both_ranges_witness:
  "map_option (\<lambda>c. (timelineRange c, sourceRange c)) (getClip tenSeconds ''c'')
     = Some (seconds_range 0 10, seconds_range 5 15)
   \<and> getTrack tenSeconds (trackId (the (getClip tenSeconds ''c''))) \<noteq> None
   \<and> compare (start (seconds_range 0 10)) (create 4 0) < 0
   \<and> compare (create 4 0) (end' (seconds_range 0 10)) < 0
   \<and> normalized (start (seconds_range 0 10)) \<and> normalized (create 4 0)
   \<and> normalized (start (seconds_range 5 15)) \<and> normalized (end' (seconds_range 5 15))
   \<and> map_sum id (map_option (map (\<lambda>c. (timelineRange c, sourceRange c))))
         (fst (splitClip (exampleEnv ''s'') ''c'' (create 4 0) tenSeconds))
       = Inr (Some [(seconds_range 0 4, seconds_range 5 9), (seconds_range 4 10, seconds_range 9 15)])
   \<and> partitions (seconds_range 0 10) (seconds_range 0 4) (seconds_range 4 10)
   \<and> partitions (seconds_range 5 15) (seconds_range 5 9) (seconds_range 9 15)
   \<and> map_option (\<lambda>c. (timelineRange c, sourceRange c)) (getClip offsetClip ''e'')
     = Some (halfSeconds 2 12, halfSeconds 5 15)
   \<and> getTrack offsetClip (trackId (the (getClip offsetClip ''e''))) \<noteq> None
   \<and> compare (start (halfSeconds 2 12)) (create 6 250000000) < 0
   \<and> compare (create 6 250000000) (end' (halfSeconds 2 12)) < 0
   \<and> normalized (start (halfSeconds 2 12)) \<and> normalized (create 6 250000000)
   \<and> normalized (start (halfSeconds 5 15)) \<and> normalized (end' (halfSeconds 5 15))
   \<and> map_sum id (map_option (map (\<lambda>c. (timelineRange c, sourceRange c))))
         (fst (splitClip (exampleEnv ''s'') ''e'' (create 6 250000000) offsetClip))
       = Inr (Some [(\<lparr>start = create 2 500000000, end' = create 6 250000000\<rparr>,
                     \<lparr>start = create 5 500000000, end' = create 9 250000000\<rparr>),
                    (\<lparr>start = create 6 250000000, end' = create 12 500000000\<rparr>,
                     \<lparr>start = create 9 250000000, end' = create 15 500000000\<rparr>)])
   \<and> partitions (halfSeconds 5 15)
         \<lparr>start = create 5 500000000, end' = create 9 250000000\<rparr>
         \<lparr>start = create 9 250000000, end' = create 15 500000000\<rparr>"
proof -
  let ?c = "exampleClip ''c'' ''track-1'' (seconds_range 0 10) (seconds_range 5 15)"
  let ?e = "exampleClip ''e'' ''track-1'' (halfSeconds 2 12) (halfSeconds 5 15)"
  have c: "getClip tenSeconds ''c'' = Some ?c"
    by (simp add: getClip_def tenSeconds_tracks exampleTrack_def exampleClip_def)
  have ct: "getTrack tenSeconds (trackId ?c) = Some (exampleTrack ''track-1'' [?c])"
    by (simp add: getTrack_def tenSeconds_tracks exampleTrack_def exampleClip_def)
  have e: "getClip offsetClip ''e'' = Some ?e"
    by (simp add: getClip_def offsetClip_tracks exampleTrack_def exampleClip_def)
  have et: "getTrack offsetClip (trackId ?e) = Some (exampleTrack ''track-1'' [?e])"
    by (simp add: getTrack_def offsetClip_tracks exampleTrack_def exampleClip_def)
  have ctl: "timelineRange ?c = seconds_range 0 10" and csr: "sourceRange ?c = seconds_range 5 15"
    and etl: "timelineRange ?e = halfSeconds 2 12" and esr: "sourceRange ?e = halfSeconds 5 15"
    by (simp_all add: exampleClip_def)
  have c3: "compare (start (timelineRange ?c)) (create 4 0) < 0"
    and c4: "compare (create 4 0) (end' (timelineRange ?c)) < 0"
    and c5: "normalized (start (timelineRange ?c))" and c6: "normalized (create 4 0)"
    and c7: "normalized (start (sourceRange ?c))" and c8: "normalized (end' (sourceRange ?c))"
    by (simp_all add: range_eval)
  have e3: "compare (start (timelineRange ?e)) (create 6 250000000) < 0"
    and e4: "compare (create 6 250000000) (end' (timelineRange ?e)) < 0"
    and e5: "normalized (start (timelineRange ?e))" and e6: "normalized (create 6 250000000)"
    and e7: "normalized (start (sourceRange ?e))" and e8: "normalized (end' (sourceRange ?e))"
    by (simp_all add: range_eval)
  have cw: "isWithinRange (create 4 0) (timelineRange ?c)"
    using c3 c4 by (simp add: isWithinRange_iff)
  have ew: "isWithinRange (create 6 250000000) (timelineRange ?e)"
    using e3 e4 by (simp add: isWithinRange_iff)
  have cres: "map_sum id (map_option (map (\<lambda>c. (timelineRange c, sourceRange c))))
         (fst (splitClip (exampleEnv ''s'') ''c'' (create 4 0) tenSeconds))
       = Inr (Some [(seconds_range 0 4, seconds_range 5 9), (seconds_range 4 10, seconds_range 9 15)])"
    using cw by (simp add: splitClip_unfold(1) [OF c ct]) (simp add: range_eval)
  have eres: "map_sum id (map_option (map (\<lambda>c. (timelineRange c, sourceRange c))))
         (fst (splitClip (exampleEnv ''s'') ''e'' (create 6 250000000) offsetClip))
       = Inr (Some [(\<lparr>start = create 2 500000000, end' = create 6 250000000\<rparr>,
                     \<lparr>start = create 5 500000000, end' = create 9 250000000\<rparr>),
                    (\<lparr>start = create 6 250000000, end' = create 12 500000000\<rparr>,
                     \<lparr>start = create 9 250000000, end' = create 15 500000000\<rparr>)])"
    using ew by (simp add: splitClip_unfold(1) [OF e et]) (simp add: range_eval)
  have cfit: "totalNanoseconds (create 4 0) - totalNanoseconds (start (timelineRange ?c))
              \<le> totalNanoseconds (end' (sourceRange ?c)) - totalNanoseconds (start (sourceRange ?c))"
    and efit: "totalNanoseconds (create 6 250000000) - totalNanoseconds (start (timelineRange ?e))
              \<le> totalNanoseconds (end' (sourceRange ?e)) - totalNanoseconds (start (sourceRange ?e))"
    by (simp_all add: range_eval)
  have cpart: "partitions (seconds_range 0 10) (seconds_range 0 4) (seconds_range 4 10)
               \<and> partitions (seconds_range 5 15) (seconds_range 5 9) (seconds_range 9 15)"
    using splitClip_cuts_both_ranges [OF c ct c3 c4 c5 c6 c7 c8, of "exampleEnv ''s''"] cw cfit
    by (simp add: splitClip_unfold(1) [OF c ct]) (simp add: value_eval)
  have epart: "partitions (halfSeconds 5 15)
         \<lparr>start = create 5 500000000, end' = create 9 250000000\<rparr>
         \<lparr>start = create 9 250000000, end' = create 15 500000000\<rparr>"
    using splitClip_cuts_both_ranges [OF e et e3 e4 e5 e6 e7 e8, of "exampleEnv ''s''"] ew efit
    by (simp add: splitClip_unfold(1) [OF e et]) (simp add: value_eval)
  have cd: "map_option (\<lambda>c. (timelineRange c, sourceRange c)) (getClip tenSeconds ''c'')
     = Some (seconds_range 0 10, seconds_range 5 15)"
    by (simp add: c ctl csr)
  have ed: "map_option (\<lambda>c. (timelineRange c, sourceRange c)) (getClip offsetClip ''e'')
     = Some (halfSeconds 2 12, halfSeconds 5 15)"
    by (simp add: e etl esr)
  have ctr: "getTrack tenSeconds (trackId (the (getClip tenSeconds ''c''))) \<noteq> None"
    by (simp add: c ct)
  have etr: "getTrack offsetClip (trackId (the (getClip offsetClip ''e''))) \<noteq> None"
    by (simp add: e et)
  show ?thesis
    using cd ctr c3 c4 c5 c6 c7 c8 cres cpart ed etr e3 e4 e5 e6 e7 e8 eres epart
    unfolding ctl csr etl esr
    by blast
qed

end
